theory Spec2Isabelle
  imports Main
begin

section \<open>The File-Log store (package db)\<close>

text \<open>
  The store is one SQLite table \<open>file_log\<close> keyed by \<open>file_path\<close>. It is modelled as a
  map from the path to the row. Every column but the key is nullable in the schema, so
  every field is optional: \<open>None\<close> is SQL NULL. Go's \<open>int64\<close> and SQLite's INTEGER are
  modelled by \<open>int\<close>: the program only stores and compares these numbers, and adds one to
  an error count. The clock value that the statements bind for \<open>last_attempt_at\<close> is the
  argument \<open>now\<close>. A statement that the engine refuses is outside the model: every
  statement runs.
\<close>

definition StatusPending :: string where "StatusPending = ''PENDING''"
definition StatusUploaded :: string where "StatusUploaded = ''UPLOADED''"
definition StatusVerified :: string where "StatusVerified = ''VERIFIED''"
definition StatusCorrupt :: string where "StatusCorrupt = ''CORRUPT''"
definition StatusFailed :: string where "StatusFailed = ''FAILED''"

record file_row =
  file_hash :: "string option"
  mod_time :: "int option"
  file_size :: "int option"
  status :: "string option"
  last_attempt_at :: "int option"
  tenant_id :: "string option"
  error_count :: "int option"

type_synonym file_log_table = "string \<rightharpoonup> file_row"

text \<open>
  \<open>GetFileRecord\<close>: the SELECT of status, mod_time, file_hash and error_count. No row, or a
  row that does not scan into the Go variables (a NULL in one of the four columns), gives
  the empty tuple.
\<close>

definition GetFileRecord :: "file_log_table \<Rightarrow> string \<Rightarrow> string \<times> int \<times> string \<times> int" where
  "GetFileRecord db path =
     (case db path of
        None \<Rightarrow> ('''', 0, '''', 0)
      | Some r \<Rightarrow>
          (case (status r, mod_time r, file_hash r, error_count r) of
             (Some st, Some mt, Some h, Some ec) \<Rightarrow> (st, mt, h, ec)
           | _ \<Rightarrow> ('''', 0, '''', 0)))"

text \<open>
  \<open>UpdateFileStatus\<close>: INSERT ... ON CONFLICT(file_path) DO UPDATE. The insert leaves
  \<open>tenant_id\<close> NULL; the update keeps the row's \<open>tenant_id\<close>. Both write error_count 0.
\<close>

definition UpdateFileStatus ::
  "string \<Rightarrow> string \<Rightarrow> string \<Rightarrow> int \<Rightarrow> int \<Rightarrow> int \<Rightarrow> file_log_table \<Rightarrow> file_log_table" where
  "UpdateFileStatus path st hash modTime fsize now db =
     (case db path of
        None \<Rightarrow>
          db(path \<mapsto> \<lparr>file_hash = Some hash, mod_time = Some modTime, file_size = Some fsize,
                       status = Some st, last_attempt_at = Some now, tenant_id = None,
                       error_count = Some 0\<rparr>)
      | Some r \<Rightarrow>
          db(path \<mapsto> r\<lparr>status := Some st, file_hash := Some hash, mod_time := Some modTime,
                        file_size := Some fsize, last_attempt_at := Some now,
                        error_count := Some 0\<rparr>))"

text \<open>\<open>IncrementError\<close> and \<open>MarkCorrupt\<close> are UPDATE statements: no row, no change.\<close>

definition IncrementError :: "string \<Rightarrow> int \<Rightarrow> file_log_table \<Rightarrow> file_log_table" where
  "IncrementError path now db =
     (case db path of
        None \<Rightarrow> db
      | Some r \<Rightarrow>
          db(path \<mapsto> r\<lparr>error_count := map_option (\<lambda>n. n + 1) (error_count r),
                        last_attempt_at := Some now\<rparr>))"

definition MarkCorrupt :: "string \<Rightarrow> int \<Rightarrow> file_log_table \<Rightarrow> file_log_table" where
  "MarkCorrupt path now db =
     (case db path of
        None \<Rightarrow> db
      | Some r \<Rightarrow> db(path \<mapsto> r\<lparr>status := Some StatusCorrupt, last_attempt_at := Some now\<rparr>))"

definition ResetHistory :: "string \<Rightarrow> file_log_table \<Rightarrow> file_log_table" where
  "ResetHistory targetPath db = (if targetPath \<noteq> [] then db(targetPath := None) else Map.empty)"

section \<open>The remote's configuration (package config)\<close>

text \<open>
  Durations are Go's \<open>time.Duration\<close>: a count of nanoseconds. The durations of the
  configuration are strings; \<open>time.ParseDuration\<close> belongs to the Go library and is a
  parameter \<open>pd\<close> of the functions that parse (\<open>None\<close> is its error).
\<close>

type_synonym duration = int

definition Second :: duration where "Second = 1000000000"
definition Minute :: duration where "Minute = 60 * Second"

record RemoteConfig =
  Name :: string
  Path :: string
  Endpoint :: string
  Key :: string
  StabilityThreshold :: int
  CheckInterval :: string
  StabilityTimeout :: string
  ConcurrencyLimit :: int
  PollingInterval :: string
  SettlingDelay :: string
  DisableFsnotify :: bool

section \<open>The orchestrator (core.WatchRemote)\<close>

text \<open>
  The orchestrator goroutine owns \<open>activeProcessing\<close> and \<open>pendingStates\<close>. Around it run
  the Go runtime's timers, the worker goroutines and the event sources. The state holds
  what the orchestrator owns and what the others hold for it:
  \<^item> \<open>timers\<close>: the armed timers of \<open>time.AfterFunc\<close>, by handle, each with the path its
    closure announces and its delay; \<open>Stop\<close> disarms a handle, and has no effect on a timer
    that has fired;
  \<^item> \<open>doneChan\<close>: the control messages sent and not yet received, oldest first (the
    channel's capacity of 100 only delays a sender and is not modelled);
  \<^item> \<open>waiting\<close>: the dispatched workers that wait for a slot of the semaphore;
  \<^item> \<open>running\<close>: the workers that hold a slot and run \<open>handleUpload\<close> on their path.
  A \<open>fileState\<close> is reached through a pointer in the source; here the map holds the record
  and an update of the record is an update of the map.
\<close>

record fileState =
  lastSize :: int
  lastMod :: int
  timer :: nat

record orch =
  activeProcessing :: "string \<rightharpoonup> bool"
  pendingStates :: "string \<rightharpoonup> fileState"
  timers :: "nat \<rightharpoonup> string \<times> duration"
  next_timer :: nat
  doneChan :: "string list"
  waiting :: "string list"
  running :: "string list"

text \<open>
  What can happen next, one constructor per party:
  \<^item> \<open>EventIn path size mod\<close>: the orchestrator receives an event from \<open>eventChan\<close>;
  \<^item> \<open>TimerFire t\<close>: the runtime fires timer \<open>t\<close>, whose closure sends START on \<open>doneChan\<close>;
  \<^item> \<open>DoneIn\<close>: the orchestrator receives the oldest message of \<open>doneChan\<close>;
  \<^item> \<open>WorkerAcquire path\<close>: a dispatched worker for \<open>path\<close> takes a slot and enters
    \<open>handleUpload\<close>;
  \<^item> \<open>WorkerExit path\<close>: a worker for \<open>path\<close> returns from \<open>handleUpload\<close>, gives its slot
    back and sends FINISH.
  Go's \<open>select\<close> takes any ready case, so every order of these is a possible run.
\<close>

datatype input =
    EventIn string int int
  | TimerFire nat
  | DoneIn
  | WorkerAcquire string
  | WorkerExit string

definition limit_of :: "RemoteConfig \<Rightarrow> int" where
  "limit_of remote = (if ConcurrencyLimit remote \<le> 0 then 5 else ConcurrencyLimit remote)"

definition settling_of :: "(string \<Rightarrow> duration option) \<Rightarrow> RemoteConfig \<Rightarrow> duration" where
  "settling_of pd remote = (case pd (SettlingDelay remote) of None \<Rightarrow> 5 * Second | Some d \<Rightarrow> d)"

definition HasPrefix :: "string \<Rightarrow> string \<Rightarrow> bool" where
  "HasPrefix s pre = (take (length pre) s = pre)"

definition TrimPrefix :: "string \<Rightarrow> string \<Rightarrow> string" where
  "TrimPrefix s pre = (if HasPrefix s pre then drop (length pre) s else s)"

definition AfterFunc :: "duration \<Rightarrow> string \<Rightarrow> orch \<Rightarrow> orch" where
  "AfterFunc d path s =
     s\<lparr>timers := (timers s)(next_timer s \<mapsto> (path, d)), next_timer := Suc (next_timer s)\<rparr>"

definition Stop :: "nat \<Rightarrow> orch \<Rightarrow> orch" where
  "Stop t s = s\<lparr>timers := (timers s)(t := None)\<rparr>"

definition on_event :: "duration \<Rightarrow> string \<Rightarrow> int \<Rightarrow> int \<Rightarrow> orch \<Rightarrow> orch" where
  "on_event settling path esize emod s =
     (if activeProcessing s path = Some True then s
      else
        (case pendingStates s path of
           Some state \<Rightarrow>
             if esize \<noteq> lastSize state \<or> emod \<noteq> lastMod state then
               (let s1 = Stop (timer state) s;
                    s2 = AfterFunc settling path s1
                in s2\<lparr>pendingStates := (pendingStates s2)(path \<mapsto>
                       \<lparr>lastSize = esize, lastMod = emod, timer = next_timer s1\<rparr>)\<rparr>)
             else s
         | None \<Rightarrow>
             (let s1 = AfterFunc settling path s
              in s1\<lparr>pendingStates := (pendingStates s1)(path \<mapsto>
                     \<lparr>lastSize = esize, lastMod = emod, timer = next_timer s\<rparr>)\<rparr>)))"

definition on_done :: "string \<Rightarrow> orch \<Rightarrow> orch" where
  "on_done msg s =
     (if HasPrefix msg ''START:'' then
        (let path = TrimPrefix msg ''START:''
         in s\<lparr>pendingStates := (pendingStates s)(path := None),
              activeProcessing := (activeProcessing s)(path \<mapsto> True),
              waiting := waiting s @ [path]\<rparr>)
      else if HasPrefix msg ''FINISH:'' then
        (let path = TrimPrefix msg ''FINISH:''
         in s\<lparr>activeProcessing := (activeProcessing s)(path := None)\<rparr>)
      else s)"

definition orch_step :: "duration \<Rightarrow> int \<Rightarrow> input \<Rightarrow> orch \<Rightarrow> orch" where
  "orch_step settling limit i s =
     (case i of
        EventIn path esize emod \<Rightarrow> on_event settling path esize emod s
      | TimerFire t \<Rightarrow>
          (case timers s t of
             None \<Rightarrow> s
           | Some (path, d) \<Rightarrow>
               s\<lparr>timers := (timers s)(t := None), doneChan := doneChan s @ [''START:'' @ path]\<rparr>)
      | DoneIn \<Rightarrow>
          (case doneChan s of
             [] \<Rightarrow> s
           | msg # rest \<Rightarrow> on_done msg (s\<lparr>doneChan := rest\<rparr>))
      | WorkerAcquire path \<Rightarrow>
          (if path \<in> set (waiting s) \<and> int (length (running s)) < limit then
             s\<lparr>waiting := remove1 path (waiting s), running := running s @ [path]\<rparr>
           else s)
      | WorkerExit path \<Rightarrow>
          (if path \<in> set (running s) then
             s\<lparr>running := remove1 path (running s), doneChan := doneChan s @ [''FINISH:'' @ path]\<rparr>
           else s))"

definition orch_init :: orch where
  "orch_init = \<lparr>activeProcessing = Map.empty, pendingStates = Map.empty, timers = Map.empty,
                 next_timer = 0, doneChan = [], waiting = [], running = []\<rparr>"

definition WatchRemote :: "(string \<Rightarrow> duration option) \<Rightarrow> RemoteConfig \<Rightarrow> input list \<Rightarrow> orch" where
  "WatchRemote pd remote ins = foldl (\<lambda>s i. orch_step (settling_of pd remote) (limit_of remote) i s) orch_init ins"

text \<open>The workers that process \<open>path\<close> in a state: those inside \<open>handleUpload\<close> for it.\<close>

definition processing :: "orch \<Rightarrow> string \<Rightarrow> nat" where
  "processing s path = count_list (running s) path"

section \<open>The watched directory and the Done-Move (core.moveToDone)\<close>

text \<open>
  A worker changes the directory tree in one place only, the Done-Move, and it is the last
  thing a worker does. The tree is a map from a path to its node. What the worker reads
  before that (the stats and the lock probes of the stability loop, the bytes it hashes)
  is written by other processes meanwhile, so those reads are answers of the environment
  and not lookups in this map.

  The functions of Go's \<open>path/filepath\<close> are given for the paths the orchestrator hands
  to a worker: absolute, cleaned, separated by a slash. \<open>fmt_d\<close> is the verb \<open>%d\<close>.
  \<open>MkdirAll\<close>, \<open>Mkdir\<close>, \<open>Stat\<close> and \<open>Rename\<close> are the calls of package \<open>os\<close>; the flag they take says
  whether the system grants the call (access rights, devices).
\<close>

datatype node = Directory | Regular int int

type_synonym filesystem = "string \<rightharpoonup> node"

record world =
  file_log :: file_log_table
  fs :: filesystem

definition filepath_Base :: "string \<Rightarrow> string" where
  "filepath_Base p = rev (takeWhile (\<lambda>c. c \<noteq> CHR ''/'') (rev p))"

definition filepath_Dir :: "string \<Rightarrow> string" where
  "filepath_Dir p =
     (let d = rev (drop 1 (dropWhile (\<lambda>c. c \<noteq> CHR ''/'') (rev p)))
      in if d = [] then ''/'' else d)"

definition filepath_Join :: "string \<Rightarrow> string \<Rightarrow> string" where
  "filepath_Join d e = (if d = ''/'' then d @ e else d @ ''/'' @ e)"

definition digit :: "nat \<Rightarrow> char" where
  "digit n = ''0123456789'' ! n"

fun dec_nat :: "nat \<Rightarrow> string" where
  "dec_nat n = (if n < 10 then [digit n] else dec_nat (n div 10) @ [digit (n mod 10)])"

declare dec_nat.simps [simp del]

definition fmt_d :: "int \<Rightarrow> string" where
  "fmt_d i = (if i < 0 then CHR ''-'' # dec_nat (nat (- i)) else dec_nat (nat i))"

definition MkdirAll :: "bool \<Rightarrow> string \<Rightarrow> filesystem \<Rightarrow> filesystem" where
  "MkdirAll granted d f =
     (case f d of Some n \<Rightarrow> f | None \<Rightarrow> if granted then f(d \<mapsto> Directory) else f)"

definition Mkdir :: "bool \<Rightarrow> string \<Rightarrow> filesystem \<Rightarrow> filesystem" where
  "Mkdir granted d f = (if granted \<and> f d = None then f(d \<mapsto> Directory) else f)"

definition Stat :: "filesystem \<Rightarrow> string \<Rightarrow> node option" where
  "Stat f p = f p"

definition Rename :: "bool \<Rightarrow> string \<Rightarrow> string \<Rightarrow> filesystem \<Rightarrow> bool \<times> filesystem" where
  "Rename granted old new f =
     (case f old of
        None \<Rightarrow> (False, f)
      | Some n \<Rightarrow>
          if granted \<and> f (filepath_Dir new) = Some Directory \<and> f new \<noteq> Some Directory
          then (True, (f(old := None))(new \<mapsto> n))
          else (False, f))"

record move_env =
  mkdir_granted :: bool
  rename_granted :: bool
  now_unix :: int

text \<open>
  \<open>move_rename\<close> is \<open>moveToDone\<close> up to and with its \<open>os.Rename\<close>: it returns whether the
  rename succeeded (\<open>err == nil\<close>) and the tree. \<open>moveToDone\<close> only logs on success, so it
  keeps the tree and drops the flag. The remote is read for the log line only.
\<close>

definition move_rename :: "move_env \<Rightarrow> string \<Rightarrow> filesystem \<Rightarrow> bool \<times> filesystem" where
  "move_rename e absPath f =
     (let doneDir = filepath_Join (filepath_Dir absPath) ''.done'';
          f1 = MkdirAll (mkdir_granted e) doneDir f;
          dest0 = filepath_Join doneDir (filepath_Base absPath);
          dest = (if Stat f1 dest0 \<noteq> None
                  then filepath_Join doneDir (fmt_d (now_unix e) @ ''_'' @ filepath_Base absPath)
                  else dest0)
      in Rename (rename_granted e) absPath dest f1)"

definition moveToDone :: "move_env \<Rightarrow> string \<Rightarrow> RemoteConfig \<Rightarrow> world \<Rightarrow> world" where
  "moveToDone e absPath remote w = w\<lparr>fs := snd (move_rename e absPath (fs w))\<rparr>"

section \<open>The uploader (api.UploadFile)\<close>

text \<open>
  The uploader reads the file, posts it and calls one of the two callbacks it is given.
  The environment answers what it asks: whether the file opens, the hex SHA-256 of the
  bytes read (\<open>None\<close>: the read fails), the outcome of the POST of attempt \<open>i\<close>, and whether
  the shutdown signal arrives during the wait that follows attempt \<open>i\<close>. A response has a
  status code and a body; the body is kept as \<open>encoding/json\<close> would decode it into a
  \<open>map[string]interface{}\<close> (\<open>NotJSON\<close>: the decoding fails). The function returns the
  sequence of its own input/output next to the state the callbacks have changed; the
  callbacks are any functions on a state, \<open>None\<close> is Go's \<open>nil\<close>.
\<close>

datatype jvalue = JString string | JOther

datatype body = NotJSON | JSONObject "string \<rightharpoonup> jvalue"

datatype post_result = TransportError | Response int body

record upload_env =
  open_ok :: bool
  hash_of :: "string option"
  post :: "nat \<Rightarrow> post_result"
  cancelled :: "nat \<Rightarrow> bool"

datatype io =
    OpenFile string
  | ReadAll string
  | POST string string string
  | Wait duration
  | Interrupted

definition succeeded :: "post_result \<Rightarrow> bool" where
  "succeeded r = (case r of TransportError \<Rightarrow> False | Response code b \<Rightarrow> 200 \<le> code \<and> code < 300)"

definition upload_request :: "RemoteConfig \<Rightarrow> string \<Rightarrow> io" where
  "upload_request remote filePath =
     POST (Endpoint remote @ ''/agent/upload'') (''Bearer '' @ Key remote) filePath"

function upload_attempts ::
  "upload_env \<Rightarrow> RemoteConfig \<Rightarrow> string \<Rightarrow> string \<Rightarrow> int \<Rightarrow>
   (string \<Rightarrow> string \<Rightarrow> int \<Rightarrow> 'w \<Rightarrow> 'w) option \<Rightarrow> (string \<Rightarrow> 'w \<Rightarrow> 'w) option \<Rightarrow>
   nat \<Rightarrow> 'w \<Rightarrow> io list \<times> 'w" where
  "upload_attempts e remote filePath localHash modTime onSuccess onError i w =
     (if i < 3 then
        (if succeeded (post e i) then
           ([upload_request remote filePath],
            (case onSuccess of None \<Rightarrow> w | Some f \<Rightarrow> f filePath localHash modTime w))
         else if cancelled e i then ([upload_request remote filePath, Interrupted], w)
         else
           (case upload_attempts e remote filePath localHash modTime onSuccess onError (Suc i) w of
              (l, w') \<Rightarrow> (upload_request remote filePath # Wait (2 * Second) # l, w')))
      else ([], (case onError of None \<Rightarrow> w | Some g \<Rightarrow> g filePath w)))"
  by pat_completeness auto
termination
  by (relation "measure (\<lambda>(e, remote, filePath, localHash, modTime, onSuccess, onError, i, w). 3 - i)")
    auto

declare upload_attempts.simps [simp del]

definition UploadFile ::
  "upload_env \<Rightarrow> RemoteConfig \<Rightarrow> string \<Rightarrow> int \<Rightarrow>
   (string \<Rightarrow> string \<Rightarrow> int \<Rightarrow> 'w \<Rightarrow> 'w) option \<Rightarrow> (string \<Rightarrow> 'w \<Rightarrow> 'w) option \<Rightarrow>
   'w \<Rightarrow> io list \<times> 'w" where
  "UploadFile e remote filePath modTime onSuccess onError w =
     (if \<not> open_ok e then ([OpenFile filePath], w)
      else
        (case hash_of e of
           None \<Rightarrow> ([OpenFile filePath, ReadAll filePath], w)
         | Some localHash \<Rightarrow>
             (case upload_attempts e remote filePath localHash modTime onSuccess onError 0 w of
                (l, w') \<Rightarrow> (OpenFile filePath # ReadAll filePath # l, w'))))"

section \<open>The worker (core.handleUpload)\<close>

text \<open>
  \<open>finfo\<close> is what the worker reads of an \<open>os.FileInfo\<close>: \<open>Size()\<close> and
  \<open>ModTime().UnixNano()\<close>. One \<open>probe\<close> is what the environment answers in one iteration of
  the stability loop: the time since the loop began, whether the shutdown signal wins the
  \<open>select\<close> over the sleep of \<open>check_interval\<close>, the stat, and whether the file opens for
  reading and writing. The check interval sets the real time between two probes and
  nothing else, so it is not read here. A loop that has used all the probes it is given
  and has not left is still running: \<open>None\<close>.
\<close>

record finfo =
  Size :: int
  ModTime :: int

record probe =
  since :: duration
  shutdown :: bool
  stat :: "finfo option"
  openable :: bool

datatype loop_exit = Stable | Timeout | Cancelled | StatError

definition stability_step :: "duration \<Rightarrow> probe \<Rightarrow> int \<times> int \<Rightarrow> loop_exit + int \<times> int" where
  "stability_step maxWait p st =
     (case st of (lsize, stableCount) \<Rightarrow>
        if since p > maxWait then Inl Timeout
        else if shutdown p then Inl Cancelled
        else
          (case stat p of
             None \<Rightarrow> Inl StatError
           | Some fi \<Rightarrow>
               if Size fi \<noteq> lsize then Inr (Size fi, 0)
               else if \<not> openable p then Inr (lsize, 0)
               else Inr (lsize, stableCount + 1)))"

fun stability_loop :: "int \<Rightarrow> duration \<Rightarrow> probe list \<Rightarrow> int \<times> int \<Rightarrow> loop_exit option" where
  "stability_loop threshold maxWait ps (lsize, stableCount) =
     (if \<not> stableCount < threshold then Some Stable
      else
        (case ps of
           [] \<Rightarrow> None
         | p # ps' \<Rightarrow>
             (case stability_step maxWait p (lsize, stableCount) of
                Inl x \<Rightarrow> Some x
              | Inr st' \<Rightarrow> stability_loop threshold maxWait ps' st')))"

declare stability_loop.simps [simp del]

record worker_env =
  stat0 :: "finfo option"
  probes :: "probe list"
  up :: upload_env
  mv :: move_env
  db_now :: int

definition onSuccess_cb :: "worker_env \<Rightarrow> RemoteConfig \<Rightarrow> string \<Rightarrow> string \<Rightarrow> int \<Rightarrow> world \<Rightarrow> world" where
  "onSuccess_cb e remote path hash modTime w =
     moveToDone (mv e) path remote
       (w\<lparr>file_log := UpdateFileStatus path StatusVerified hash modTime 0 (db_now e) (file_log w)\<rparr>)"

definition onError_cb :: "worker_env \<Rightarrow> string \<Rightarrow> world \<Rightarrow> world" where
  "onError_cb e path w = w\<lparr>file_log := IncrementError path (db_now e) (file_log w)\<rparr>"

definition threshold_of :: "RemoteConfig \<Rightarrow> int" where
  "threshold_of remote = (if StabilityThreshold remote \<le> 0 then 2 else StabilityThreshold remote)"

definition maxWait_of :: "(string \<Rightarrow> duration option) \<Rightarrow> RemoteConfig \<Rightarrow> duration" where
  "maxWait_of pd remote =
     (let maxWait = (case pd (StabilityTimeout remote) of None \<Rightarrow> 0 | Some d \<Rightarrow> d)
      in if maxWait = 0 then 30 * Minute else maxWait)"

definition handleUpload ::
  "(string \<Rightarrow> duration option) \<Rightarrow> worker_env \<Rightarrow> RemoteConfig \<Rightarrow> string \<Rightarrow> world \<Rightarrow>
   (io list \<times> world) option" where
  "handleUpload pd e remote absPath w =
     (case stat0 e of
        None \<Rightarrow> Some ([], w)
      | Some info \<Rightarrow>
          (case GetFileRecord (file_log w) absPath of
             (st, dbModTime, h, errorCount) \<Rightarrow>
               if errorCount > 10 then Some ([], w)
               else if (st = StatusUploaded \<or> st = StatusVerified) \<and> dbModTime = ModTime info
               then Some ([], moveToDone (mv e) absPath remote w)
               else
                 (case stability_loop (threshold_of remote) (maxWait_of pd remote) (probes e)
                         (Size info, 0) of
                    None \<Rightarrow> None
                  | Some Stable \<Rightarrow>
                      Some (UploadFile (up e) remote absPath (ModTime info)
                              (Some (onSuccess_cb e remote)) (Some (onError_cb e)) w)
                  | Some x \<Rightarrow> Some ([], w))))"

section \<open>The earlier uploader with the integrity handshake (cmd.uploadFile)\<close>

text \<open>
  The sources hold an earlier uploader, \<open>uploadFile\<close> of package \<open>cmd\<close>, in the revision
  that reads the response body. It creates \<open>.done\<close>, hashes, posts up to three times with
  a sleep of two seconds that no signal interrupts, and on a 2xx response decodes the
  body: a string field \<open>sha256\<close> is compared with the local hash. It writes the File-Log
  and moves the file itself. \<open>stamp\<close> is \<open>time.Now().Format("20060102150405")\<close>. Of the
  remote it reads \<open>Endpoint\<close> and \<open>Key\<close>.
\<close>

record legacy_env =
  lup :: upload_env
  lmkdir_granted :: bool
  lrename_granted :: bool
  stamp :: string
  ldb_now :: int

text \<open>
  The handshake block: \<open>Inl\<close> is its \<open>return\<close> (stop processing this file), \<open>Inr\<close> falls
  through to the move.
\<close>

definition handshake ::
  "int \<Rightarrow> string \<Rightarrow> string \<Rightarrow> int \<Rightarrow> body \<Rightarrow> file_log_table \<Rightarrow> file_log_table + file_log_table" where
  "handshake now filePath localHash modTime b db =
     (case b of
        NotJSON \<Rightarrow> Inr db
      | JSONObject result \<Rightarrow>
          (case result ''sha256'' of
             Some (JString remoteHash) \<Rightarrow>
               if remoteHash = localHash
               then Inr (UpdateFileStatus filePath StatusVerified localHash modTime 0 now db)
               else Inl (IncrementError filePath now (MarkCorrupt filePath now db))
           | _ \<Rightarrow> Inr (UpdateFileStatus filePath StatusUploaded localHash modTime 0 now db)))"

definition legacy_move :: "legacy_env \<Rightarrow> string \<Rightarrow> string \<Rightarrow> filesystem \<Rightarrow> filesystem" where
  "legacy_move e filePath doneDir f =
     (let destPath0 = filepath_Join doneDir (filepath_Base filePath);
          destPath = (if Stat f destPath0 \<noteq> None
                      then filepath_Join doneDir (stamp e @ ''_'' @ filepath_Base filePath)
                      else destPath0)
      in snd (Rename (lrename_granted e) filePath destPath f))"

definition success_body :: "post_result \<Rightarrow> body option" where
  "success_body r =
     (case r of
        TransportError \<Rightarrow> None
      | Response code b \<Rightarrow> if 200 \<le> code \<and> code < 300 then Some b else None)"

function legacy_attempts ::
  "legacy_env \<Rightarrow> RemoteConfig \<Rightarrow> string \<Rightarrow> string \<Rightarrow> int \<Rightarrow> string \<Rightarrow> nat \<Rightarrow> world \<Rightarrow> io list \<times> world" where
  "legacy_attempts e remote filePath localHash modTime doneDir i w =
     (if i < 3 then
        (case success_body (post (lup e) i) of
           Some b \<Rightarrow>
             (case handshake (ldb_now e) filePath localHash modTime b (file_log w) of
                Inl db' \<Rightarrow> ([upload_request remote filePath], w\<lparr>file_log := db'\<rparr>)
              | Inr db' \<Rightarrow>
                  ([upload_request remote filePath],
                   w\<lparr>file_log := db', fs := legacy_move e filePath doneDir (fs w)\<rparr>))
         | None \<Rightarrow>
             (case legacy_attempts e remote filePath localHash modTime doneDir (Suc i) w of
                (l, w') \<Rightarrow> (upload_request remote filePath # Wait (2 * Second) # l, w')))
      else ([], w\<lparr>file_log := IncrementError filePath (ldb_now e) (file_log w)\<rparr>))"
  by pat_completeness auto
termination
  by (relation "measure (\<lambda>(e, remote, filePath, localHash, modTime, doneDir, i, w). 3 - i)") auto

declare legacy_attempts.simps [simp del]

definition uploadFile ::
  "legacy_env \<Rightarrow> RemoteConfig \<Rightarrow> string \<Rightarrow> int \<Rightarrow> world \<Rightarrow> io list \<times> world" where
  "uploadFile e remote filePath modTime w =
     (let doneDir = filepath_Join (filepath_Dir filePath) ''.done'';
          w1 = (if Stat (fs w) doneDir = None
                then w\<lparr>fs := Mkdir (lmkdir_granted e) doneDir (fs w)\<rparr> else w)
      in if \<not> open_ok (lup e) then ([OpenFile filePath], w1)
         else
           (case hash_of (lup e) of
              None \<Rightarrow> ([OpenFile filePath, ReadAll filePath], w1)
            | Some localHash \<Rightarrow>
                (case legacy_attempts e remote filePath localHash modTime doneDir 0 w1 of
                   (l, w2) \<Rightarrow> (OpenFile filePath # ReadAll filePath # l, w2))))"

section \<open>Auxiliary notions for the statements\<close>

text \<open>
  The invariant of the orchestrator's state that the runs preserve: a pending path is not
  active, and every timer handle in use is older than the next handle.
\<close>

definition orch_inv :: "orch \<Rightarrow> bool" where
  "orch_inv s =
     ((\<forall>p st. pendingStates s p = Some st \<longrightarrow>
          activeProcessing s p \<noteq> Some True \<and> timer st < next_timer s) \<and>
      (\<forall>t x. timers s t = Some x \<longrightarrow> t < next_timer s))"

text \<open>
  Two callbacks that only record that they were called, to count the calls the uploader
  makes.
\<close>

datatype callback_call = CalledSuccess string string int | CalledError string

definition record_success :: "string \<Rightarrow> string \<Rightarrow> int \<Rightarrow> callback_call list \<Rightarrow> callback_call list" where
  "record_success path hash modTime calls = calls @ [CalledSuccess path hash modTime]"

definition record_error :: "string \<Rightarrow> callback_call list \<Rightarrow> callback_call list" where
  "record_error path calls = calls @ [CalledError path]"

text \<open>The number of POST requests in a sequence of input/output.\<close>

definition posts :: "io list \<Rightarrow> nat" where
  "posts l = length (filter (\<lambda>a. case a of POST url auth file \<Rightarrow> True | _ \<Rightarrow> False) l)"

text \<open>
  The remote of the specification's scenarios (settling delay 2s, stability threshold 2,
  check interval 1s, concurrency limit 2, polling interval 60s), a parser that knows
  these three strings, and a file of 10 bytes.
\<close>

definition scenario_remote :: RemoteConfig where
  "scenario_remote =
     \<lparr>Name = ''R'', Path = ''/w'', Endpoint = ''https://sift.example'', Key = ''k'',
      StabilityThreshold = 2, CheckInterval = ''1s'', StabilityTimeout = [],
      ConcurrencyLimit = 2, PollingInterval = ''60s'', SettlingDelay = ''2s'',
      DisableFsnotify = False\<rparr>"

definition scenario_pd :: "string \<Rightarrow> duration option" where
  "scenario_pd s =
     (if s = ''1s'' then Some Second
      else if s = ''2s'' then Some (2 * Second)
      else if s = ''60s'' then Some Minute
      else None)"

definition scenario_world :: world where
  "scenario_world =
     \<lparr>file_log = Map.empty,
      fs = [''/w'' \<mapsto> Directory, ''/w/a.pdf'' \<mapsto> Regular 10 111]\<rparr>"

text \<open>The scenario's world after the file was delivered: a VERIFIED row for the file.\<close>

definition verified_world :: world where
  "verified_world =
     scenario_world\<lparr>file_log := UpdateFileStatus ''/w/a.pdf'' StatusVerified ''0a'' 111 0 5 Map.empty\<rparr>"

text \<open>
  The environment of the scenario's happy path: the file is there with 10 bytes, two
  probes find it unchanged and free, it opens and hashes, the server answers 200 to every
  POST with a body that is not JSON, no shutdown arrives, and the system grants the
  Done-Move.
\<close>

definition stable_probes :: "probe list" where
  "stable_probes =
     [\<lparr>since = Second, shutdown = False, stat = Some \<lparr>Size = 10, ModTime = 111\<rparr>, openable = True\<rparr>,
      \<lparr>since = 2 * Second, shutdown = False, stat = Some \<lparr>Size = 10, ModTime = 111\<rparr>, openable = True\<rparr>]"

definition server_ok :: upload_env where
  "server_ok =
     \<lparr>open_ok = True, hash_of = Some ''0a'', post = (\<lambda>i. Response 200 NotJSON),
      cancelled = (\<lambda>i. False)\<rparr>"

definition move_granted :: move_env where
  "move_granted = \<lparr>mkdir_granted = True, rename_granted = True, now_unix = 1700000000\<rparr>"

definition scenario_env :: worker_env where
  "scenario_env =
     \<lparr>stat0 = Some \<lparr>Size = 10, ModTime = 111\<rparr>, probes = stable_probes, up = server_ok,
      mv = move_granted, db_now = 5\<rparr>"

text \<open>
  The File-Log after the file was delivered once and eleven later cycles failed: the row
  is still VERIFIED with the modification time of the delivery, and its error count is 11.
\<close>

definition failed_world :: world where
  "failed_world =
     scenario_world\<lparr>file_log :=
       (IncrementError ''/w/a.pdf'' 6 ^^ 11)
         (UpdateFileStatus ''/w/a.pdf'' StatusVerified ''0a'' 111 0 5 Map.empty)\<rparr>"

text \<open>A probe in which the stat fails, and one in which the file is held by a writer.\<close>

definition stat_fails :: probe where
  "stat_fails = \<lparr>since = Second, shutdown = False, stat = None, openable = True\<rparr>"

definition file_busy :: probe where
  "file_busy =
     \<lparr>since = Second, shutdown = False, stat = Some \<lparr>Size = 10, ModTime = 111\<rparr>, openable = False\<rparr>"

text \<open>
  The File-Log when an earlier content of the file was delivered (modification time 100)
  and two later cycles failed; a response body that advertises a hash other than the
  local one; and an environment for the earlier uploader whose server answers so.
\<close>

definition stale_world :: world where
  "stale_world =
     scenario_world\<lparr>file_log :=
       (IncrementError ''/w/a.pdf'' 6 ^^ 2)
         (UpdateFileStatus ''/w/a.pdf'' StatusVerified ''ff'' 100 0 5 Map.empty)\<rparr>"

definition mismatch_body :: body where
  "mismatch_body = JSONObject [''sha256'' \<mapsto> JString ''deadbeef'']"

definition mismatch_server :: upload_env where
  "mismatch_server = server_ok\<lparr>post := (\<lambda>i. Response 200 mismatch_body)\<rparr>"

definition mismatch_env :: worker_env where
  "mismatch_env = scenario_env\<lparr>up := mismatch_server\<rparr>"

definition legacy_scenario :: legacy_env where
  "legacy_scenario =
     \<lparr>lup = mismatch_server, lmkdir_granted = True, lrename_granted = True,
      stamp = ''20260101000000'', ldb_now = 7\<rparr>"

text \<open>The same with a server whose 200 answers carry a JSON object without a hash.\<close>

definition plain_server :: upload_env where
  "plain_server = server_ok\<lparr>post := (\<lambda>i. Response 200 (JSONObject Map.empty))\<rparr>"

definition legacy_plain :: legacy_env where
  "legacy_plain = legacy_scenario\<lparr>lup := plain_server\<rparr>"

text \<open>
  A server that cannot be reached, with the shutdown signal arriving in the wait after the
  third attempt.
\<close>

definition late_shutdown :: upload_env where
  "late_shutdown = server_ok\<lparr>post := (\<lambda>i. TransportError), cancelled := (\<lambda>i. i = 2)\<rparr>"

definition late_shutdown_env :: worker_env where
  "late_shutdown_env = scenario_env\<lparr>up := late_shutdown\<rparr>"

section \<open>Properties of the File-Log store\<close>

lemma GetFileRecord_UpdateFileStatus:
  "GetFileRecord (UpdateFileStatus path st hash modTime fsize now db) path = (st, modTime, hash, 0)"
  by (simp add: GetFileRecord_def UpdateFileStatus_def split: option.split)

lemma IncrementError_row:
  "db path = Some r \<Longrightarrow>
   IncrementError path now db path =
     Some (r\<lparr>error_count := map_option (\<lambda>n. n + 1) (error_count r), last_attempt_at := Some now\<rparr>)"
  by (simp add: IncrementError_def)

lemma IncrementError_no_row: "db path = None \<Longrightarrow> IncrementError path now db = db"
  by (simp add: IncrementError_def)

text \<open>
  C8. For every path \<open>P\<close>, hash \<open>h\<close>, modification time \<open>m\<close> and size \<open>s\<close>, and from any File-Log
  \<open>db\<close>: \<open>update_status(P, VERIFIED, h, m, s)\<close> followed by \<open>get_record(P)\<close> returns
  \<open>(VERIFIED, m, h, 0)\<close>. The same holds when \<open>increment_error(P)\<close> has run any number \<open>n\<close> of
  times before: the upsert resets the error count to 0.
\<close>

theorem update_status_get_record:
  "GetFileRecord (UpdateFileStatus P StatusVerified h m s now db) P = (StatusVerified, m, h, 0) \<and>
   GetFileRecord (UpdateFileStatus P StatusVerified h m s now ((IncrementError P t ^^ n) db)) P
     = (StatusVerified, m, h, 0)"
  by (simp add: GetFileRecord_UpdateFileStatus)

theorem update_status_get_record_witness:
  "GetFileRecord
     ((IncrementError ''/w/a.pdf'' 8 ^^ 2) (UpdateFileStatus ''/w/a.pdf'' StatusVerified ''0a'' 4 10 7 Map.empty))
     ''/w/a.pdf'' = (StatusVerified, 4, ''0a'', 2) \<and>
   GetFileRecord
     (UpdateFileStatus ''/w/a.pdf'' StatusVerified ''1b'' 5 11 9
        ((IncrementError ''/w/a.pdf'' 8 ^^ 2)
           (UpdateFileStatus ''/w/a.pdf'' StatusVerified ''0a'' 4 10 7 Map.empty)))
     ''/w/a.pdf'' = (StatusVerified, 5, ''1b'', 0)"
proof -
  have "GetFileRecord
     ((IncrementError ''/w/a.pdf'' 8 ^^ 2) (UpdateFileStatus ''/w/a.pdf'' StatusVerified ''0a'' 4 10 7 Map.empty))
     ''/w/a.pdf'' = (StatusVerified, 4, ''0a'', 2)"
    by (simp add: numeral_2_eq_2 GetFileRecord_def UpdateFileStatus_def IncrementError_def)
  then show ?thesis
    using update_status_get_record
      [where P = "''/w/a.pdf''" and h = "''1b''" and m = 5 and s = 11 and now = 9 and t = 8
          and n = 2 and db = "UpdateFileStatus ''/w/a.pdf'' StatusVerified ''0a'' 4 10 7 Map.empty"]
    by simp
qed

section \<open>Properties of the orchestrator\<close>

lemmas orch_eval = WatchRemote_def orch_step_def on_event_def on_done_def orch_init_def
  AfterFunc_def Stop_def HasPrefix_def TrimPrefix_def limit_of_def settling_of_def Let_def
  scenario_remote_def scenario_pd_def

lemma orch_inv_init: "orch_inv orch_init"
  by (simp add: orch_inv_def orch_init_def)

lemma on_event_inv: "orch_inv s \<Longrightarrow> orch_inv (on_event settling path esize emod s)"
  unfolding orch_inv_def on_event_def AfterFunc_def Stop_def Let_def
  by (auto split: option.splits if_splits simp: less_Suc_eq)

lemma on_done_inv: "orch_inv s \<Longrightarrow> orch_inv (on_done msg s)"
  unfolding orch_inv_def on_done_def Let_def
  by (auto split: option.splits if_splits)

lemma orch_step_inv: "orch_inv s \<Longrightarrow> orch_inv (orch_step settling limit i s)"
proof (cases i)
  case (EventIn path esize emod)
  assume "orch_inv s"
  then show ?thesis using EventIn by (simp add: orch_step_def on_event_inv)
next
  case (TimerFire t)
  assume "orch_inv s"
  then show ?thesis using TimerFire
    by (auto simp: orch_step_def orch_inv_def split: option.splits)
next
  case DoneIn
  assume inv: "orch_inv s"
  show ?thesis
  proof (cases "doneChan s")
    case Nil
    then show ?thesis using inv DoneIn by (simp add: orch_step_def)
  next
    case (Cons msg rest)
    have "orch_inv (s\<lparr>doneChan := rest\<rparr>)" using inv by (simp add: orch_inv_def)
    then show ?thesis using DoneIn Cons by (simp add: orch_step_def on_done_inv)
  qed
next
  case (WorkerAcquire path)
  assume "orch_inv s"
  then show ?thesis using WorkerAcquire by (simp add: orch_step_def orch_inv_def)
next
  case (WorkerExit path)
  assume "orch_inv s"
  then show ?thesis using WorkerExit by (simp add: orch_step_def orch_inv_def)
qed

lemma WatchRemote_inv: "orch_inv (WatchRemote pd remote ins)"
proof (induction ins rule: rev_induct)
  case Nil
  show ?case by (simp add: WatchRemote_def orch_inv_init)
next
  case (snoc i ins)
  then show ?case by (simp add: WatchRemote_def orch_step_inv)
qed

text \<open>
  C7. Let \<open>s\<close> be a state the orchestrator reaches and \<open>path\<close> a path that is pending in it,
  with the stored \<open>state\<close>. An event for \<open>path\<close> whose size and modification time equal the
  stored pair leaves the whole state as it is: the stored pair, the timer handle and the
  armed timers, so the running settling timer is neither reset nor extended. An event
  with a differing pair stops the stored timer (its handle is no longer armed), stores the
  new pair and arms a timer with a new handle and the settling delay for \<open>path\<close>; nothing
  else changes.
\<close>

theorem event_while_pending:
  assumes "s = WatchRemote pd remote ins"
    and "pendingStates s path = Some state"
    and "s' = orch_step (settling_of pd remote) (limit_of remote) (EventIn path esize emod) s"
  shows "(if esize = lastSize state \<and> emod = lastMod state then s' = s
          else timers s' (timer state) = None \<and>
               timers s (next_timer s) = None \<and>
               timers s' = ((timers s)(timer state := None))(next_timer s \<mapsto> (path, settling_of pd remote)) \<and>
               pendingStates s' = (pendingStates s)(path \<mapsto> \<lparr>lastSize = esize, lastMod = emod, timer = next_timer s\<rparr>) \<and>
               next_timer s' = Suc (next_timer s) \<and>
               activeProcessing s' = activeProcessing s \<and> doneChan s' = doneChan s \<and>
               waiting s' = waiting s \<and> running s' = running s)"
proof -
  have inv: "orch_inv s" using assms(1) by (simp add: WatchRemote_inv)
  have na: "activeProcessing s path \<noteq> Some True" and lt: "timer state < next_timer s"
    using inv assms(2) by (auto simp: orch_inv_def)
  have fresh: "timers s (next_timer s) = None"
  proof (cases "timers s (next_timer s)")
    case None
    then show ?thesis .
  next
    case (Some x)
    then have "next_timer s < next_timer s" using inv unfolding orch_inv_def by blast
    then show ?thesis by simp
  qed
  show ?thesis
    using na lt fresh assms(2,3)
    by (auto simp: orch_step_def on_event_def AfterFunc_def Stop_def Let_def)
qed

theorem event_while_pending_witness:
  "pendingStates (WatchRemote scenario_pd scenario_remote [EventIn ''/w/c.pdf'' 10 111]) ''/w/c.pdf''
     = Some \<lparr>lastSize = 10, lastMod = 111, timer = 0\<rparr> \<and>
   orch_step (2 * Second) 2 (EventIn ''/w/c.pdf'' 10 111)
       (WatchRemote scenario_pd scenario_remote [EventIn ''/w/c.pdf'' 10 111])
     = WatchRemote scenario_pd scenario_remote [EventIn ''/w/c.pdf'' 10 111] \<and>
   timers (orch_step (2 * Second) 2 (EventIn ''/w/c.pdf'' 11 222)
       (WatchRemote scenario_pd scenario_remote [EventIn ''/w/c.pdf'' 10 111]))
     = [1 \<mapsto> (''/w/c.pdf'', 2 * Second)]"
proof -
  let ?s = "WatchRemote scenario_pd scenario_remote [EventIn ''/w/c.pdf'' 10 111]"
  have p: "pendingStates ?s ''/w/c.pdf'' = Some \<lparr>lastSize = 10, lastMod = 111, timer = 0\<rparr>"
    by (simp add: orch_eval)
  have t: "timers ?s = [0 \<mapsto> (''/w/c.pdf'', 2 * Second)]" and n: "next_timer ?s = 1"
    by (simp_all add: orch_eval)
  have c: "settling_of scenario_pd scenario_remote = 2 * Second" "limit_of scenario_remote = 2"
    by (simp_all add: settling_of_def limit_of_def scenario_pd_def scenario_remote_def)
  from event_while_pending [OF refl p refl, of 10 111] c
  have same: "orch_step (2 * Second) 2 (EventIn ''/w/c.pdf'' 10 111) ?s = ?s" by simp
  from event_while_pending [OF refl p refl, of 11 222] c t n
  have diff: "timers (orch_step (2 * Second) 2 (EventIn ''/w/c.pdf'' 11 222) ?s)
     = [1 \<mapsto> (''/w/c.pdf'', 2 * Second)]"
    by (simp add: fun_upd_twist)
  from p same diff show ?thesis by simp
qed

text \<open>
  C1 does not hold of the code: at most one worker per path is what \<open>activeProcessing\<close> is
  for, but the START branch neither looks at it nor stops the timer of the pending state
  it deletes. The run below is accepted by the orchestrator. The first settling timer
  fires, so its START is in \<open>doneChan\<close>; the orchestrator then takes an event for the same
  path with a new size, for which \<open>Stop\<close> comes too late and a second timer is armed; the
  first START dispatches a worker; the second timer fires while that worker runs, and its
  START dispatches a second worker for the same path. Both hold a slot (the limit is 2).
\<close>

theorem second_worker_dispatched:
  "processing
     (WatchRemote scenario_pd scenario_remote
        [EventIn ''/w/a.pdf'' 10 111, TimerFire 0, EventIn ''/w/a.pdf'' 11 222, DoneIn,
         WorkerAcquire ''/w/a.pdf'', TimerFire 1, DoneIn, WorkerAcquire ''/w/a.pdf''])
     ''/w/a.pdf'' = 2"
  by (simp add: processing_def orch_eval)

theorem second_worker_dispatched_witness:
  "\<not> processing
     (WatchRemote scenario_pd scenario_remote
        [EventIn ''/w/a.pdf'' 10 111, TimerFire 0, EventIn ''/w/a.pdf'' 11 222, DoneIn,
         WorkerAcquire ''/w/a.pdf'', TimerFire 1, DoneIn, WorkerAcquire ''/w/a.pdf''])
     ''/w/a.pdf'' \<le> 1"
  using second_worker_dispatched by simp

section \<open>Properties of the Done-Move\<close>

lemmas path_eval = filepath_Base_def filepath_Dir_def filepath_Join_def

lemmas move_eval = moveToDone_def move_rename_def MkdirAll_def Stat_def Rename_def Let_def

lemma Rename_refused: "\<not> fst (Rename False old new f)"
  by (simp add: Rename_def split: option.split)

lemma Rename_failed_tree: "\<not> fst (Rename granted old new f) \<Longrightarrow> snd (Rename granted old new f) = f"
  by (cases "f old") (auto simp: Rename_def split: if_splits)

lemma MkdirAll_keeps: "f p = Some n \<Longrightarrow> MkdirAll granted d f p = Some n"
  by (auto simp: MkdirAll_def split: option.split)

lemma moveToDone_file_log: "file_log (moveToDone e absPath remote w) = file_log w"
  by (simp add: moveToDone_def)

text \<open>When \<open>.done\<close> already holds the name, the file goes there under the time and its name.\<close>

lemma move_rename_collision:
  "snd (move_rename move_granted ''/w/a.pdf''
          [''/w'' \<mapsto> Directory, ''/w/a.pdf'' \<mapsto> Regular 10 111, ''/w/.done'' \<mapsto> Directory,
           ''/w/.done/a.pdf'' \<mapsto> Regular 3 4])
       ''/w/.done/1700000000_a.pdf'' = Some (Regular 10 111)"
  by (simp add: move_rename_def move_granted_def MkdirAll_def Stat_def Rename_def Let_def path_eval
      fmt_d_def dec_nat.simps digit_def)

text \<open>
  C9. The Done-Move performs no File-Log operation: the File-Log after \<open>moveToDone\<close> is the
  File-Log before it, whether the rename succeeds or fails. A rename that the system
  refuses fails, and when the rename fails a file that was at \<open>absPath\<close> is still there.
\<close>

theorem done_move_frame:
  "file_log (moveToDone e absPath remote w) = file_log w \<and>
   (\<not> rename_granted e \<longrightarrow> \<not> fst (move_rename e absPath (fs w))) \<and>
   (\<not> fst (move_rename e absPath (fs w)) \<and> fs w absPath = Some n \<longrightarrow>
      fs (moveToDone e absPath remote w) absPath = Some n)"
proof (intro conjI impI)
  show "file_log (moveToDone e absPath remote w) = file_log w"
    by (rule moveToDone_file_log)
next
  assume "\<not> rename_granted e"
  then show "\<not> fst (move_rename e absPath (fs w))"
    by (simp add: move_rename_def Let_def Rename_refused)
next
  assume a: "\<not> fst (move_rename e absPath (fs w)) \<and> fs w absPath = Some n"
  then have "snd (move_rename e absPath (fs w))
     = MkdirAll (mkdir_granted e) (filepath_Join (filepath_Dir absPath) ''.done'') (fs w)"
    unfolding move_rename_def Let_def by (rule_tac Rename_failed_tree) simp
  then show "fs (moveToDone e absPath remote w) absPath = Some n"
    using a by (simp add: moveToDone_def MkdirAll_keeps)
qed

theorem done_move_frame_witness:
  "file_log (moveToDone \<lparr>mkdir_granted = True, rename_granted = False, now_unix = 1700000000\<rparr>
       ''/w/a.pdf'' scenario_remote verified_world) = file_log verified_world \<and>
   GetFileRecord (file_log (moveToDone \<lparr>mkdir_granted = True, rename_granted = False, now_unix = 1700000000\<rparr>
       ''/w/a.pdf'' scenario_remote verified_world)) ''/w/a.pdf'' = (StatusVerified, 111, ''0a'', 0) \<and>
   fs (moveToDone \<lparr>mkdir_granted = True, rename_granted = False, now_unix = 1700000000\<rparr>
       ''/w/a.pdf'' scenario_remote verified_world) ''/w/a.pdf'' = Some (Regular 10 111)"
proof -
  let ?e = "\<lparr>mkdir_granted = True, rename_granted = False, now_unix = 1700000000\<rparr>"
  have f: "fs verified_world ''/w/a.pdf'' = Some (Regular 10 111)"
    by (simp add: verified_world_def scenario_world_def)
  have g: "GetFileRecord (file_log verified_world) ''/w/a.pdf'' = (StatusVerified, 111, ''0a'', 0)"
    by (simp add: verified_world_def GetFileRecord_UpdateFileStatus)
  from done_move_frame [of ?e "''/w/a.pdf''" scenario_remote verified_world "Regular 10 111"] f g
  show ?thesis by simp
qed

section \<open>Properties of the uploader\<close>

lemma upload_attempts_end:
  "upload_attempts e remote p h m S E 3 w = ([], (case E of None \<Rightarrow> w | Some g \<Rightarrow> g p w))"
  by (subst upload_attempts.simps) simp

lemma upload_attempts_success:
  "i < 3 \<Longrightarrow> succeeded (post e i) \<Longrightarrow>
   upload_attempts e remote p h m S E i w =
     ([upload_request remote p], (case S of None \<Rightarrow> w | Some f \<Rightarrow> f p h m w))"
  by (subst upload_attempts.simps) simp

lemma upload_attempts_interrupted:
  "i < 3 \<Longrightarrow> \<not> succeeded (post e i) \<Longrightarrow> cancelled e i \<Longrightarrow>
   upload_attempts e remote p h m S E i w = ([upload_request remote p, Interrupted], w)"
  by (subst upload_attempts.simps) simp

lemma upload_attempts_retry:
  "i < 3 \<Longrightarrow> \<not> succeeded (post e i) \<Longrightarrow> \<not> cancelled e i \<Longrightarrow>
   upload_attempts e remote p h m S E i w =
     (upload_request remote p # Wait (2 * Second) # fst (upload_attempts e remote p h m S E (Suc i) w),
      snd (upload_attempts e remote p h m S E (Suc i) w))"
  by (subst upload_attempts.simps) (simp add: case_prod_unfold)

lemma upload_attempts_skip:
  "i + k \<le> 3 \<Longrightarrow> \<forall>j<k. \<not> succeeded (post e (i + j)) \<and> \<not> cancelled e (i + j) \<Longrightarrow>
   fst (upload_attempts e remote p h m S E i w) =
     concat (replicate k [upload_request remote p, Wait (2 * Second)])
        @ fst (upload_attempts e remote p h m S E (i + k) w) \<and>
   snd (upload_attempts e remote p h m S E i w) = snd (upload_attempts e remote p h m S E (i + k) w)"
proof (induction k arbitrary: i)
  case 0
  show ?case by simp
next
  case (Suc k)
  have i3: "i < 3" using Suc.prems(1) by simp
  have f0: "\<not> succeeded (post e i)" "\<not> cancelled e i" using Suc.prems(2) by force+
  have rest: "\<forall>j<k. \<not> succeeded (post e (Suc i + j)) \<and> \<not> cancelled e (Suc i + j)"
  proof (intro allI impI)
    fix j assume "j < k"
    then have "Suc j < Suc k" by simp
    then show "\<not> succeeded (post e (Suc i + j)) \<and> \<not> cancelled e (Suc i + j)"
      using Suc.prems(2) by (metis add_Suc_shift)
  qed
  have le: "Suc i + k \<le> 3" using Suc.prems(1) by simp
  have step: "fst (upload_attempts e remote p h m S E i w) =
      upload_request remote p # Wait (2 * Second) # fst (upload_attempts e remote p h m S E (Suc i) w)"
    "snd (upload_attempts e remote p h m S E i w) = snd (upload_attempts e remote p h m S E (Suc i) w)"
    by (simp_all add: upload_attempts_retry [OF i3 f0])
  have ih: "fst (upload_attempts e remote p h m S E (Suc i) w) =
      concat (replicate k [upload_request remote p, Wait (2 * Second)])
        @ fst (upload_attempts e remote p h m S E (Suc i + k) w)"
    "snd (upload_attempts e remote p h m S E (Suc i) w) = snd (upload_attempts e remote p h m S E (Suc i + k) w)"
    using Suc.IH [OF le rest] by simp_all
  show ?case unfolding step by (simp add: ih)
qed

lemma upload_attempts_state:
  "snd (upload_attempts e remote p h m S E i w) = w \<or>
   (\<exists>f. S = Some f \<and> snd (upload_attempts e remote p h m S E i w) = f p h m w) \<or>
   (\<exists>g. E = Some g \<and> snd (upload_attempts e remote p h m S E i w) = g p w)"
proof (induction e remote p h m S E i w rule: upload_attempts.induct)
  case (1 e remote filePath localHash modTime onSuccess onError i w)
  show ?case
  proof (cases "i < 3")
    case False
    then show ?thesis
      by (subst (1 2 3) upload_attempts.simps) (auto split: option.splits)
  next
    case i3: True
    show ?thesis
    proof (cases "succeeded (post e i)")
      case True
      then show ?thesis using i3
        by (auto simp: upload_attempts_success split: option.splits)
    next
      case ns: False
      show ?thesis
      proof (cases "cancelled e i")
        case True
        then show ?thesis using i3 ns by (simp add: upload_attempts_interrupted)
      next
        case False
        then show ?thesis using i3 ns "1.IH" by (simp add: upload_attempts_retry)
      qed
    qed
  qed
qed

lemma upload_attempts_posts: "posts (fst (upload_attempts e remote p h m S E i w)) \<le> 3 - i"
proof (induction e remote p h m S E i w rule: upload_attempts.induct)
  case (1 e remote filePath localHash modTime onSuccess onError i w)
  show ?case
  proof (cases "i < 3")
    case False
    then show ?thesis by (subst upload_attempts.simps) (simp add: posts_def)
  next
    case i3: True
    show ?thesis
    proof (cases "succeeded (post e i)")
      case True
      then show ?thesis using i3
        by (simp add: upload_attempts_success posts_def upload_request_def)
    next
      case ns: False
      show ?thesis
      proof (cases "cancelled e i")
        case True
        then show ?thesis using i3 ns
          by (simp add: upload_attempts_interrupted posts_def upload_request_def)
      next
        case False
        then have "posts (fst (upload_attempts e remote filePath localHash modTime onSuccess onError (Suc i) w)) \<le> 3 - Suc i"
          using i3 ns "1.IH" by simp
        then show ?thesis using i3 ns False
          by (simp add: upload_attempts_retry posts_def upload_request_def)
      qed
    qed
  qed
qed

lemma upload_attempts_cancel:
  "i + k < 3 \<Longrightarrow> cancelled e (i + k) \<Longrightarrow> \<forall>j\<le>k. \<not> succeeded (post e (i + j)) \<Longrightarrow>
   snd (upload_attempts e remote p h m S E i w) = w"
proof (induction k arbitrary: i)
  case 0
  then show ?case by (simp add: upload_attempts_interrupted)
next
  case (Suc k)
  have i3: "i < 3" using Suc.prems(1) by simp
  have ns: "\<not> succeeded (post e i)" using Suc.prems(3) by force
  show ?case
  proof (cases "cancelled e i")
    case True
    then show ?thesis using i3 ns by (simp add: upload_attempts_interrupted)
  next
    case False
    have a: "Suc i + k < 3" "cancelled e (Suc i + k)" using Suc.prems(1,2) by simp_all
    have b: "\<forall>j\<le>k. \<not> succeeded (post e (Suc i + j))"
    proof (intro allI impI)
      fix j assume "j \<le> k"
      then have "Suc j \<le> Suc k" by simp
      then show "\<not> succeeded (post e (Suc i + j))" using Suc.prems(3) by (metis add_Suc_shift)
    qed
    from Suc.IH [OF a b] show ?thesis using i3 ns False by (simp add: upload_attempts_retry)
  qed
qed

lemma UploadFile_local_failure:
  "\<not> open_ok u \<or> hash_of u = None \<Longrightarrow> snd (UploadFile u remote p m S E w) = w"
  by (auto simp: UploadFile_def)

lemma UploadFile_attempts:
  "open_ok u \<Longrightarrow> hash_of u = Some h \<Longrightarrow>
   UploadFile u remote p m S E w =
     (OpenFile p # ReadAll p # fst (upload_attempts u remote p h m S E 0 w),
      snd (upload_attempts u remote p h m S E 0 w))"
  by (simp add: UploadFile_def case_prod_unfold)

lemma UploadFile_state:
  "snd (UploadFile u remote p m S E w) = w \<or>
   (\<exists>f h. S = Some f \<and> hash_of u = Some h \<and> snd (UploadFile u remote p m S E w) = f p h m w) \<or>
   (\<exists>g. E = Some g \<and> snd (UploadFile u remote p m S E w) = g p w)"
proof (cases "open_ok u \<and> hash_of u \<noteq> None")
  case False
  then show ?thesis by (auto simp: UploadFile_local_failure)
next
  case True
  then obtain h where h: "open_ok u" "hash_of u = Some h" by auto
  show ?thesis
    using upload_attempts_state [of u remote p h m S E 0 w] h
    by (auto simp: UploadFile_attempts)
qed

lemma UploadFile_calls:
  "length (snd (UploadFile u remote p m (Some record_success) (Some record_error) [])) \<le> 1"
  using UploadFile_state [of u remote p m "Some record_success" "Some record_error" "[]"]
  by (auto simp: record_success_def record_error_def)

lemma UploadFile_cancel:
  assumes "\<exists>i<3. cancelled u i \<and> (\<forall>j\<le>i. \<not> succeeded (post u j))"
  shows "snd (UploadFile u remote p m S E w) = w"
proof (cases "open_ok u \<and> hash_of u \<noteq> None")
  case False
  then show ?thesis by (auto simp: UploadFile_local_failure)
next
  case True
  then obtain h where h: "open_ok u" "hash_of u = Some h" by auto
  from assms obtain i where i: "i < 3" "cancelled u i" "\<forall>j\<le>i. \<not> succeeded (post u j)" by auto
  have "snd (upload_attempts u remote p h m S E 0 w) = w"
    using upload_attempts_cancel [of 0 i u remote p h m S E w] i by simp
  then show ?thesis using h by (simp add: UploadFile_attempts)
qed

lemma handleUpload_local_failure:
  assumes "handleUpload pd e remote p w0 = Some (l, w1)"
    and "\<not> open_ok (up e) \<or> hash_of (up e) = None"
  shows "file_log w1 = file_log w0"
proof -
  have "snd (UploadFile (up e) remote p m S E w0) = w0" for m S E
    using assms(2) by (rule UploadFile_local_failure)
  then have u: "UploadFile (up e) remote p m S E w0 = (l, w1) \<Longrightarrow> w1 = w0" for m S E
    by (metis snd_conv)
  show ?thesis
    using assms(1) u
    by (auto simp: handleUpload_def moveToDone_file_log
        split: option.splits prod.splits if_splits loop_exit.splits)
qed


text \<open>
  C10. For every invocation of the uploader at most one of the two callbacks is called,
  and at most once: with two callbacks that only record their call, at most one call is
  recorded; with any callbacks, the state the uploader returns is the state it was given,
  or \<open>onSuccess\<close> applied once to it (with the path, the local hash and the modification
  time), or \<open>onError\<close> applied once to it. If the file does not open or its hash cannot be
  computed, no callback is called; neither is one called when the shutdown signal arrives
  in a back-off wait that the uploader reaches (every attempt up to that wait failed).
  Hence a worker whose file does not open or hash returns with the File-Log, and so the
  path's error count, unchanged.
\<close>

theorem uploader_callbacks:
  "length (snd (UploadFile u remote p m (Some record_success) (Some record_error) [])) \<le> 1 \<and>
   (snd (UploadFile u remote p m S E w) = w \<or>
    (\<exists>f h. S = Some f \<and> hash_of u = Some h \<and> snd (UploadFile u remote p m S E w) = f p h m w) \<or>
    (\<exists>g. E = Some g \<and> snd (UploadFile u remote p m S E w) = g p w)) \<and>
   (\<not> open_ok u \<or> hash_of u = None \<longrightarrow> snd (UploadFile u remote p m S E w) = w) \<and>
   ((\<exists>i<3. cancelled u i \<and> (\<forall>j\<le>i. \<not> succeeded (post u j))) \<longrightarrow>
      snd (UploadFile u remote p m S E w) = w) \<and>
   (handleUpload pd e remote p w0 = Some (l, w1) \<and> (\<not> open_ok (up e) \<or> hash_of (up e) = None) \<longrightarrow>
      file_log w1 = file_log w0)"
proof (intro conjI impI)
  show "length (snd (UploadFile u remote p m (Some record_success) (Some record_error) [])) \<le> 1"
    by (rule UploadFile_calls)
next
  show "snd (UploadFile u remote p m S E w) = w \<or>
    (\<exists>f h. S = Some f \<and> hash_of u = Some h \<and> snd (UploadFile u remote p m S E w) = f p h m w) \<or>
    (\<exists>g. E = Some g \<and> snd (UploadFile u remote p m S E w) = g p w)"
    by (rule UploadFile_state)
next
  assume "\<not> open_ok u \<or> hash_of u = None"
  then show "snd (UploadFile u remote p m S E w) = w" by (rule UploadFile_local_failure)
next
  assume "\<exists>i<3. cancelled u i \<and> (\<forall>j\<le>i. \<not> succeeded (post u j))"
  then show "snd (UploadFile u remote p m S E w) = w" by (rule UploadFile_cancel)
next
  assume "handleUpload pd e remote p w0 = Some (l, w1) \<and> (\<not> open_ok (up e) \<or> hash_of (up e) = None)"
  then show "file_log w1 = file_log w0" using handleUpload_local_failure by blast
qed

lemma scenario_threshold: "threshold_of scenario_remote = 2"
  by (simp add: threshold_of_def scenario_remote_def)

lemma scenario_maxWait: "maxWait_of scenario_pd scenario_remote = 30 * Minute"
  by (simp add: maxWait_of_def scenario_remote_def scenario_pd_def)

lemma stable_probes_Stable: "stability_loop 2 (30 * Minute) stable_probes (10, 0) = Some Stable"
  by (simp add: stability_loop.simps stable_probes_def stability_step_def Second_def Minute_def)

lemma no_record: "GetFileRecord (file_log scenario_world) p = ([], 0, [], 0)"
  by (simp add: GetFileRecord_def scenario_world_def)

lemma scenario_upload:
  "probes e = stable_probes \<Longrightarrow> stat0 e = Some \<lparr>Size = 10, ModTime = 111\<rparr> \<Longrightarrow>
   handleUpload scenario_pd e scenario_remote p scenario_world =
     Some (UploadFile (up e) scenario_remote p 111 (Some (onSuccess_cb e scenario_remote))
             (Some (onError_cb e)) scenario_world)"
  by (simp add: handleUpload_def no_record scenario_threshold scenario_maxWait stable_probes_Stable
      StatusUploaded_def StatusVerified_def)


theorem uploader_callbacks_witness:
  "snd (UploadFile (server_ok\<lparr>open_ok := False\<rparr>) scenario_remote ''/w/a.pdf'' 111
          (Some record_success) (Some record_error) []) = [] \<and>
   snd (UploadFile (server_ok\<lparr>hash_of := None\<rparr>) scenario_remote ''/w/a.pdf'' 111
          (Some record_success) (Some record_error) []) = [] \<and>
   snd (UploadFile (server_ok\<lparr>post := (\<lambda>i. TransportError), cancelled := (\<lambda>i. i = 1)\<rparr>)
          scenario_remote ''/w/a.pdf'' 111 (Some record_success) (Some record_error) []) = [] \<and>
   handleUpload scenario_pd (scenario_env\<lparr>up := server_ok\<lparr>hash_of := None\<rparr>\<rparr>) scenario_remote
       ''/w/a.pdf'' scenario_world = Some ([OpenFile ''/w/a.pdf'', ReadAll ''/w/a.pdf''], scenario_world)"
proof -
  let ?rs = "Some record_success" and ?re = "Some record_error"
  have a: "snd (UploadFile (server_ok\<lparr>open_ok := False\<rparr>) scenario_remote ''/w/a.pdf'' 111 ?rs ?re []) = []"
    using uploader_callbacks [of "server_ok\<lparr>open_ok := False\<rparr>" scenario_remote "''/w/a.pdf''" 111 ?rs ?re "[]"]
    by simp
  have b: "snd (UploadFile (server_ok\<lparr>hash_of := None\<rparr>) scenario_remote ''/w/a.pdf'' 111 ?rs ?re []) = []"
    using uploader_callbacks [of "server_ok\<lparr>hash_of := None\<rparr>" scenario_remote "''/w/a.pdf''" 111 ?rs ?re "[]"]
    by simp
  let ?u = "server_ok\<lparr>post := (\<lambda>i. TransportError), cancelled := (\<lambda>i. i = 1)\<rparr>"
  have "\<exists>i<3. cancelled ?u i \<and> (\<forall>j\<le>i. \<not> succeeded (post ?u j))"
    by (rule exI [of _ 1]) (simp add: succeeded_def)
  then have c: "snd (UploadFile ?u scenario_remote ''/w/a.pdf'' 111 ?rs ?re []) = []"
    using uploader_callbacks [of ?u scenario_remote "''/w/a.pdf''" 111 ?rs ?re "[]"]
    by blast
  let ?e = "scenario_env\<lparr>up := server_ok\<lparr>hash_of := None\<rparr>\<rparr>"
  have d: "handleUpload scenario_pd ?e scenario_remote ''/w/a.pdf'' scenario_world
      = Some ([OpenFile ''/w/a.pdf'', ReadAll ''/w/a.pdf''], scenario_world)"
    by (simp add: scenario_upload scenario_env_def UploadFile_def server_ok_def)
  from a b c d show ?thesis by simp
qed

lemma UploadFile_posts: "posts (fst (UploadFile u remote p m S E w)) \<le> 3"
proof (cases "open_ok u \<and> hash_of u \<noteq> None")
  case False
  then show ?thesis by (auto simp: UploadFile_def posts_def)
next
  case True
  then obtain h where h: "open_ok u" "hash_of u = Some h" by auto
  have "posts (fst (upload_attempts u remote p h m S E 0 w)) \<le> 3"
    using upload_attempts_posts [of u remote p h m S E 0 w] by simp
  then show ?thesis using h by (simp add: UploadFile_attempts posts_def)
qed

lemma UploadFile_first_success:
  assumes "open_ok u" "hash_of u = Some h" "k < 3"
    and "\<forall>j<k. \<not> succeeded (post u j) \<and> \<not> cancelled u j"
    and "succeeded (post u k)"
  shows "UploadFile u remote p m S E w =
     (OpenFile p # ReadAll p # concat (replicate k [upload_request remote p, Wait (2 * Second)])
        @ [upload_request remote p],
      (case S of None \<Rightarrow> w | Some f \<Rightarrow> f p h m w))"
proof -
  have "0 + k \<le> 3" using assms(3) by simp
  from upload_attempts_skip [OF this, of u remote p h m S E w] assms(4)
  have "fst (upload_attempts u remote p h m S E 0 w) =
      concat (replicate k [upload_request remote p, Wait (2 * Second)])
        @ fst (upload_attempts u remote p h m S E k w)"
    and "snd (upload_attempts u remote p h m S E 0 w) = snd (upload_attempts u remote p h m S E k w)"
    by simp_all
  then show ?thesis
    using assms(1,2,3,5) by (simp add: UploadFile_attempts upload_attempts_success)
qed

lemma UploadFile_first_cancel:
  assumes "open_ok u" "hash_of u = Some h" "k < 3"
    and "\<forall>j<k. \<not> succeeded (post u j) \<and> \<not> cancelled u j"
    and "\<not> succeeded (post u k)" "cancelled u k"
  shows "UploadFile u remote p m S E w =
     (OpenFile p # ReadAll p # concat (replicate k [upload_request remote p, Wait (2 * Second)])
        @ [upload_request remote p, Interrupted], w)"
proof -
  have "0 + k \<le> 3" using assms(3) by simp
  from upload_attempts_skip [OF this, of u remote p h m S E w] assms(4)
  have "fst (upload_attempts u remote p h m S E 0 w) =
      concat (replicate k [upload_request remote p, Wait (2 * Second)])
        @ fst (upload_attempts u remote p h m S E k w)"
    and "snd (upload_attempts u remote p h m S E 0 w) = snd (upload_attempts u remote p h m S E k w)"
    by simp_all
  then show ?thesis
    using assms(1,2,3,5,6) by (simp add: UploadFile_attempts upload_attempts_interrupted)
qed

lemma replicate3: "replicate 3 x = [x, x, x]"
  by (simp add: numeral_3_eq_3)

lemma UploadFile_exhausted:
  assumes "open_ok u" "hash_of u = Some h"
    and "\<forall>j<3. \<not> succeeded (post u j) \<and> \<not> cancelled u j"
  shows "UploadFile u remote p m S E w =
     ([OpenFile p, ReadAll p, upload_request remote p, Wait (2 * Second),
       upload_request remote p, Wait (2 * Second), upload_request remote p, Wait (2 * Second)],
      (case E of None \<Rightarrow> w | Some g \<Rightarrow> g p w))"
proof -
  have "0 + 3 \<le> (3::nat)" by simp
  from upload_attempts_skip [OF this, of u remote p h m S E w] assms(3)
  have "fst (upload_attempts u remote p h m S E 0 w) =
      concat (replicate 3 [upload_request remote p, Wait (2 * Second)])
        @ fst (upload_attempts u remote p h m S E 3 w)"
    and "snd (upload_attempts u remote p h m S E 0 w) = snd (upload_attempts u remote p h m S E 3 w)"
    by simp_all
  then show ?thesis
    using assms(1,2) by (simp add: UploadFile_attempts upload_attempts_end replicate3)
qed

lemma succeeded_iff: "succeeded r = (\<exists>code b. r = Response code b \<and> 200 \<le> code \<and> code < 300)"
  by (cases r) (auto simp: succeeded_def)

text \<open>
  C6 as the code has it. In every upload cycle the uploader makes at most 3 POST attempts.
  When the file opens and hashes, the cycle is one of three runs, where an attempt counts
  as successful exactly when it has no transport error and its status is in [200, 300):
  \<^item> the first successful attempt is attempt \<open>k\<close> (of 0, 1, 2) and no wait before it was
    interrupted: \<open>k\<close> failed POSTs, each followed by a wait of 2 seconds, then the
    successful POST and \<open>onSuccess\<close>;
  \<^item> the shutdown signal arrives in the wait after the failed attempt \<open>k\<close> (the wait after
    the third attempt too): the uploader returns at once, with no callback and the state
    as it was;
  \<^item> all three attempts fail and none of the three waits is interrupted: three POSTs, each
    followed by a wait of 2 seconds, then \<open>increment_error\<close> on the path and nothing else,
    so the file is not moved.
  \<open>increment_error\<close> adds one to the error count of the path's row and does nothing for a
  path with no row.
\<close>

theorem upload_cycle:
  "(let P = upload_request remote p; W = Wait (2 * Second);
        R = UploadFile (up e) remote p m (Some (onSuccess_cb e remote)) (Some (onError_cb e)) w
    in posts (fst R) \<le> 3 \<and>
       (open_ok (up e) \<and> hash_of (up e) = Some h \<longrightarrow>
          (\<forall>k<3. (\<forall>j<k. \<not> succeeded (post (up e) j) \<and> \<not> cancelled (up e) j) \<and>
                  succeeded (post (up e) k) \<longrightarrow>
             R = (OpenFile p # ReadAll p # concat (replicate k [P, W]) @ [P],
                  onSuccess_cb e remote p h m w)) \<and>
          (\<forall>k<3. (\<forall>j<k. \<not> succeeded (post (up e) j) \<and> \<not> cancelled (up e) j) \<and>
                  \<not> succeeded (post (up e) k) \<and> cancelled (up e) k \<longrightarrow>
             R = (OpenFile p # ReadAll p # concat (replicate k [P, W]) @ [P, Interrupted], w)) \<and>
          ((\<forall>j<3. \<not> succeeded (post (up e) j) \<and> \<not> cancelled (up e) j) \<longrightarrow>
             R = ([OpenFile p, ReadAll p, P, W, P, W, P, W],
                  w\<lparr>file_log := IncrementError p (db_now e) (file_log w)\<rparr>)))) \<and>
   (\<forall>r. succeeded r = (\<exists>code b. r = Response code b \<and> 200 \<le> code \<and> code < 300))"
  unfolding Let_def
proof (intro conjI impI allI)
  show "posts (fst (UploadFile (up e) remote p m (Some (onSuccess_cb e remote)) (Some (onError_cb e)) w)) \<le> 3"
    by (rule UploadFile_posts)
next
  fix k
  assume "open_ok (up e) \<and> hash_of (up e) = Some h" "k < 3"
    "(\<forall>j<k. \<not> succeeded (post (up e) j) \<and> \<not> cancelled (up e) j) \<and> succeeded (post (up e) k)"
  then show "UploadFile (up e) remote p m (Some (onSuccess_cb e remote)) (Some (onError_cb e)) w =
     (OpenFile p # ReadAll p # concat (replicate k [upload_request remote p, Wait (2 * Second)])
        @ [upload_request remote p], onSuccess_cb e remote p h m w)"
    by (simp add: UploadFile_first_success)
next
  fix k
  assume "open_ok (up e) \<and> hash_of (up e) = Some h" "k < 3"
    "(\<forall>j<k. \<not> succeeded (post (up e) j) \<and> \<not> cancelled (up e) j) \<and>
       \<not> succeeded (post (up e) k) \<and> cancelled (up e) k"
  then show "UploadFile (up e) remote p m (Some (onSuccess_cb e remote)) (Some (onError_cb e)) w =
     (OpenFile p # ReadAll p # concat (replicate k [upload_request remote p, Wait (2 * Second)])
        @ [upload_request remote p, Interrupted], w)"
    by (simp add: UploadFile_first_cancel)
next
  assume "open_ok (up e) \<and> hash_of (up e) = Some h"
    "\<forall>j<3. \<not> succeeded (post (up e) j) \<and> \<not> cancelled (up e) j"
  then show "UploadFile (up e) remote p m (Some (onSuccess_cb e remote)) (Some (onError_cb e)) w =
     ([OpenFile p, ReadAll p, upload_request remote p, Wait (2 * Second), upload_request remote p,
       Wait (2 * Second), upload_request remote p, Wait (2 * Second)],
      w\<lparr>file_log := IncrementError p (db_now e) (file_log w)\<rparr>)"
    by (simp add: UploadFile_exhausted onError_cb_def)
next
  fix r
  show "succeeded r = (\<exists>code b. r = Response code b \<and> 200 \<le> code \<and> code < 300)"
    by (rule succeeded_iff)
qed

lemma verified_record:
  "GetFileRecord (file_log verified_world) ''/w/a.pdf'' = (StatusVerified, 111, ''0a'', 0)"
  by (simp add: verified_world_def GetFileRecord_UpdateFileStatus)

text \<open>
  C6 as stated fails where the shutdown signal arrives during the wait that follows the
  third failed attempt: all three attempts have failed, and the error count of the path's
  row is still 0 (\<open>increment_error\<close> would have made it 1).
\<close>

theorem upload_cycle_counterexample:
  "post late_shutdown 0 = TransportError \<and> post late_shutdown 1 = TransportError \<and>
   post late_shutdown 2 = TransportError \<and>
   UploadFile late_shutdown scenario_remote ''/w/a.pdf'' 222
      (Some (onSuccess_cb late_shutdown_env scenario_remote)) (Some (onError_cb late_shutdown_env))
      verified_world
    = ([OpenFile ''/w/a.pdf'', ReadAll ''/w/a.pdf'',
        upload_request scenario_remote ''/w/a.pdf'', Wait (2 * Second),
        upload_request scenario_remote ''/w/a.pdf'', Wait (2 * Second),
        upload_request scenario_remote ''/w/a.pdf'', Interrupted],
       verified_world) \<and>
   GetFileRecord (file_log verified_world) ''/w/a.pdf'' = (StatusVerified, 111, ''0a'', 0) \<and>
   GetFileRecord (IncrementError ''/w/a.pdf'' 5 (file_log verified_world)) ''/w/a.pdf''
     = (StatusVerified, 111, ''0a'', 1)"
proof -
  have u: "open_ok late_shutdown" "hash_of late_shutdown = Some ''0a''"
    by (simp_all add: late_shutdown_def server_ok_def)
  have t: "post late_shutdown i = TransportError" for i by (simp add: late_shutdown_def)
  have f: "\<forall>j<2. \<not> succeeded (post late_shutdown j) \<and> \<not> cancelled late_shutdown j"
    by (simp add: t succeeded_def) (simp add: late_shutdown_def)
  have g: "\<not> succeeded (post late_shutdown 2)" "cancelled late_shutdown 2"
    by (simp_all add: t succeeded_def) (simp add: late_shutdown_def)
  have r: "replicate 2 x = [x, x]" for x :: "io list" by (simp add: numeral_2_eq_2)
  have "UploadFile late_shutdown scenario_remote ''/w/a.pdf'' 222 S E verified_world
    = ([OpenFile ''/w/a.pdf'', ReadAll ''/w/a.pdf'',
        upload_request scenario_remote ''/w/a.pdf'', Wait (2 * Second),
        upload_request scenario_remote ''/w/a.pdf'', Wait (2 * Second),
        upload_request scenario_remote ''/w/a.pdf'', Interrupted], verified_world)" for S E
    using UploadFile_first_cancel [OF u _ f g, of scenario_remote "''/w/a.pdf''" 222 S E verified_world]
    by (simp add: r)
  moreover have "GetFileRecord (IncrementError ''/w/a.pdf'' 5 (file_log verified_world)) ''/w/a.pdf''
     = (StatusVerified, 111, ''0a'', 1)"
    by (simp add: verified_world_def GetFileRecord_def UpdateFileStatus_def IncrementError_def)
  ultimately show ?thesis using verified_record t by simp
qed

theorem upload_cycle_witness:
  "UploadFile (server_ok\<lparr>post := (\<lambda>i. if i = 0 then TransportError else Response 503 NotJSON)\<rparr>)
      scenario_remote ''/w/a.pdf'' 222
      (Some (onSuccess_cb (scenario_env\<lparr>up := server_ok\<lparr>post :=
               (\<lambda>i. if i = 0 then TransportError else Response 503 NotJSON)\<rparr>\<rparr>) scenario_remote))
      (Some (onError_cb (scenario_env\<lparr>up := server_ok\<lparr>post :=
               (\<lambda>i. if i = 0 then TransportError else Response 503 NotJSON)\<rparr>\<rparr>)))
      verified_world
    = ([OpenFile ''/w/a.pdf'', ReadAll ''/w/a.pdf'',
        upload_request scenario_remote ''/w/a.pdf'', Wait (2 * Second),
        upload_request scenario_remote ''/w/a.pdf'', Wait (2 * Second),
        upload_request scenario_remote ''/w/a.pdf'', Wait (2 * Second)],
       verified_world\<lparr>file_log := IncrementError ''/w/a.pdf'' 5 (file_log verified_world)\<rparr>) \<and>
   GetFileRecord (IncrementError ''/w/a.pdf'' 5 (file_log verified_world)) ''/w/a.pdf''
     = (StatusVerified, 111, ''0a'', 1) \<and>
   UploadFile (server_ok\<lparr>post := (\<lambda>i. if i = 0 then Response 500 NotJSON else Response 201 NotJSON)\<rparr>)
      scenario_remote ''/w/a.pdf'' 222
      (Some (onSuccess_cb (scenario_env\<lparr>up := server_ok\<lparr>post :=
               (\<lambda>i. if i = 0 then Response 500 NotJSON else Response 201 NotJSON)\<rparr>\<rparr>) scenario_remote))
      (Some (onError_cb (scenario_env\<lparr>up := server_ok\<lparr>post :=
               (\<lambda>i. if i = 0 then Response 500 NotJSON else Response 201 NotJSON)\<rparr>\<rparr>)))
      verified_world
    = ([OpenFile ''/w/a.pdf'', ReadAll ''/w/a.pdf'',
        upload_request scenario_remote ''/w/a.pdf'', Wait (2 * Second),
        upload_request scenario_remote ''/w/a.pdf''],
       onSuccess_cb (scenario_env\<lparr>up := server_ok\<lparr>post :=
               (\<lambda>i. if i = 0 then Response 500 NotJSON else Response 201 NotJSON)\<rparr>\<rparr>) scenario_remote
          ''/w/a.pdf'' ''0a'' 222 verified_world) \<and>
   UploadFile late_shutdown scenario_remote ''/w/a.pdf'' 222
      (Some (onSuccess_cb late_shutdown_env scenario_remote)) (Some (onError_cb late_shutdown_env))
      verified_world
    = ([OpenFile ''/w/a.pdf'', ReadAll ''/w/a.pdf'',
        upload_request scenario_remote ''/w/a.pdf'', Wait (2 * Second),
        upload_request scenario_remote ''/w/a.pdf'', Wait (2 * Second),
        upload_request scenario_remote ''/w/a.pdf'', Interrupted],
       verified_world)"
proof -
  let ?u = "server_ok\<lparr>post := (\<lambda>i. if i = 0 then TransportError else Response 503 NotJSON)\<rparr>"
  let ?e = "scenario_env\<lparr>up := ?u\<rparr>"
  have u: "open_ok (up ?e) \<and> hash_of (up ?e) = Some ''0a''" by (simp add: server_ok_def)
  have f: "\<forall>j<3. \<not> succeeded (post (up ?e) j) \<and> \<not> cancelled (up ?e) j"
    by (simp add: succeeded_def server_ok_def)
  have n: "db_now ?e = 5" by (simp add: scenario_env_def)
  have a: "UploadFile ?u scenario_remote ''/w/a.pdf'' 222 (Some (onSuccess_cb ?e scenario_remote))
      (Some (onError_cb ?e)) verified_world
    = ([OpenFile ''/w/a.pdf'', ReadAll ''/w/a.pdf'',
        upload_request scenario_remote ''/w/a.pdf'', Wait (2 * Second),
        upload_request scenario_remote ''/w/a.pdf'', Wait (2 * Second),
        upload_request scenario_remote ''/w/a.pdf'', Wait (2 * Second)],
       verified_world\<lparr>file_log := IncrementError ''/w/a.pdf'' 5 (file_log verified_world)\<rparr>)"
    using upload_cycle [of scenario_remote "''/w/a.pdf''" ?e 222 verified_world "''0a''"] u f n
    by (simp add: Let_def)
  have b: "GetFileRecord (IncrementError ''/w/a.pdf'' 5 (file_log verified_world)) ''/w/a.pdf''
     = (StatusVerified, 111, ''0a'', 1)"
    by (simp add: verified_world_def GetFileRecord_def UpdateFileStatus_def IncrementError_def)
  let ?v = "server_ok\<lparr>post := (\<lambda>i. if i = 0 then Response 500 NotJSON else Response 201 NotJSON)\<rparr>"
  let ?d = "scenario_env\<lparr>up := ?v\<rparr>"
  have v: "open_ok (up ?d) \<and> hash_of (up ?d) = Some ''0a''" by (simp add: server_ok_def)
  have g: "(\<forall>j<1. \<not> succeeded (post (up ?d) j) \<and> \<not> cancelled (up ?d) j) \<and> succeeded (post (up ?d) 1)"
    by (simp add: succeeded_def server_ok_def)
  have c: "UploadFile ?v scenario_remote ''/w/a.pdf'' 222 (Some (onSuccess_cb ?d scenario_remote))
      (Some (onError_cb ?d)) verified_world
    = ([OpenFile ''/w/a.pdf'', ReadAll ''/w/a.pdf'',
        upload_request scenario_remote ''/w/a.pdf'', Wait (2 * Second),
        upload_request scenario_remote ''/w/a.pdf''],
       onSuccess_cb ?d scenario_remote ''/w/a.pdf'' ''0a'' 222 verified_world)"
  proof -
    have "\<forall>k<3. (\<forall>j<k. \<not> succeeded (post (up ?d) j) \<and> \<not> cancelled (up ?d) j) \<and>
                 succeeded (post (up ?d) k) \<longrightarrow>
            UploadFile (up ?d) scenario_remote ''/w/a.pdf'' 222 (Some (onSuccess_cb ?d scenario_remote))
              (Some (onError_cb ?d)) verified_world
            = (OpenFile ''/w/a.pdf'' # ReadAll ''/w/a.pdf'' #
                 concat (replicate k [upload_request scenario_remote ''/w/a.pdf'', Wait (2 * Second)])
                 @ [upload_request scenario_remote ''/w/a.pdf''],
               onSuccess_cb ?d scenario_remote ''/w/a.pdf'' ''0a'' 222 verified_world)"
      using upload_cycle [of scenario_remote "''/w/a.pdf''" ?d 222 verified_world "''0a''"] v
      unfolding Let_def by blast
    moreover have "(1::nat) < 3" by simp
    ultimately have "UploadFile (up ?d) scenario_remote ''/w/a.pdf'' 222 (Some (onSuccess_cb ?d scenario_remote))
              (Some (onError_cb ?d)) verified_world
            = (OpenFile ''/w/a.pdf'' # ReadAll ''/w/a.pdf'' #
                 concat (replicate 1 [upload_request scenario_remote ''/w/a.pdf'', Wait (2 * Second)])
                 @ [upload_request scenario_remote ''/w/a.pdf''],
               onSuccess_cb ?d scenario_remote ''/w/a.pdf'' ''0a'' 222 verified_world)"
      using g by blast
    then show ?thesis by simp
  qed
  have x: "up late_shutdown_env = late_shutdown" by (simp add: late_shutdown_env_def)
  have y: "open_ok (up late_shutdown_env) \<and> hash_of (up late_shutdown_env) = Some ''0a''"
    by (simp add: x late_shutdown_def server_ok_def)
  have z: "(\<forall>j<2. \<not> succeeded (post (up late_shutdown_env) j) \<and> \<not> cancelled (up late_shutdown_env) j) \<and>
      \<not> succeeded (post (up late_shutdown_env) 2) \<and> cancelled (up late_shutdown_env) 2"
    by (simp add: x late_shutdown_def succeeded_def)
  have d: "UploadFile late_shutdown scenario_remote ''/w/a.pdf'' 222
      (Some (onSuccess_cb late_shutdown_env scenario_remote)) (Some (onError_cb late_shutdown_env))
      verified_world
    = ([OpenFile ''/w/a.pdf'', ReadAll ''/w/a.pdf'',
        upload_request scenario_remote ''/w/a.pdf'', Wait (2 * Second),
        upload_request scenario_remote ''/w/a.pdf'', Wait (2 * Second),
        upload_request scenario_remote ''/w/a.pdf'', Interrupted],
       verified_world)"
  proof -
    have "\<forall>k<3. (\<forall>j<k. \<not> succeeded (post (up late_shutdown_env) j) \<and>
                       \<not> cancelled (up late_shutdown_env) j) \<and>
                 \<not> succeeded (post (up late_shutdown_env) k) \<and> cancelled (up late_shutdown_env) k \<longrightarrow>
            UploadFile (up late_shutdown_env) scenario_remote ''/w/a.pdf'' 222
              (Some (onSuccess_cb late_shutdown_env scenario_remote))
              (Some (onError_cb late_shutdown_env)) verified_world
            = (OpenFile ''/w/a.pdf'' # ReadAll ''/w/a.pdf'' #
                 concat (replicate k [upload_request scenario_remote ''/w/a.pdf'', Wait (2 * Second)])
                 @ [upload_request scenario_remote ''/w/a.pdf'', Interrupted],
               verified_world)"
      using upload_cycle [of scenario_remote "''/w/a.pdf''" late_shutdown_env 222 verified_world "''0a''"] y
      unfolding Let_def by blast
    moreover have "(2::nat) < 3" by simp
    ultimately have "UploadFile (up late_shutdown_env) scenario_remote ''/w/a.pdf'' 222
              (Some (onSuccess_cb late_shutdown_env scenario_remote))
              (Some (onError_cb late_shutdown_env)) verified_world
            = (OpenFile ''/w/a.pdf'' # ReadAll ''/w/a.pdf'' #
                 concat (replicate 2 [upload_request scenario_remote ''/w/a.pdf'', Wait (2 * Second)])
                 @ [upload_request scenario_remote ''/w/a.pdf'', Interrupted],
               verified_world)"
      using z by blast
    then show ?thesis by (simp add: x numeral_2_eq_2)
  qed
  from a b c d show ?thesis by simp
qed


section \<open>Properties of the worker\<close>

lemma onSuccess_cb_row:
  "file_log (onSuccess_cb e remote path hash modTime w) path =
     Some ((case file_log w path of
              None \<Rightarrow> \<lparr>file_hash = None, mod_time = None, file_size = None, status = None,
                        last_attempt_at = None, tenant_id = None, error_count = None\<rparr>
            | Some r \<Rightarrow> r)
           \<lparr>status := Some StatusVerified, file_hash := Some hash, mod_time := Some modTime,
            file_size := Some 0, last_attempt_at := Some (db_now e), error_count := Some 0\<rparr>)"
  by (simp add: onSuccess_cb_def moveToDone_file_log UpdateFileStatus_def split: option.split)

text \<open>
  C3 does not hold of the code in its last part. For every file that is uploaded
  successfully (the worker reaches the upload, the file opens and hashes, and attempt \<open>k\<close>
  is the first to succeed), the row written by the success path has status VERIFIED, the
  computed hash, the modification time of the stat taken at the start of the cycle (so
  before the hash) and error count 0. Its \<open>file_size\<close> is 0 whatever the size of the file:
  \<open>onSuccess\<close> passes the constant 0 to \<open>UpdateFileStatus\<close> for the size. The witness is the
  scenario's file of 10 bytes.
\<close>

theorem success_path_record:
  assumes "stat0 e = Some info"
    and "GetFileRecord (file_log w) p = (st, dbModTime, dbHash, errorCount)"
    and "errorCount \<le> 10"
    and "\<not> ((st = StatusUploaded \<or> st = StatusVerified) \<and> dbModTime = ModTime info)"
    and "stability_loop (threshold_of remote) (maxWait_of pd remote) (probes e) (Size info, 0)
           = Some Stable"
    and "open_ok (up e)" and "hash_of (up e) = Some h"
    and "k < 3" and "\<forall>j<k. \<not> succeeded (post (up e) j) \<and> \<not> cancelled (up e) j"
    and "succeeded (post (up e) k)"
  shows "\<exists>l w' r. handleUpload pd e remote p w = Some (l, w') \<and> file_log w' p = Some r \<and>
           status r = Some StatusVerified \<and> file_hash r = Some h \<and>
           mod_time r = Some (ModTime info) \<and> error_count r = Some 0 \<and> file_size r = Some 0"
proof -
  have "handleUpload pd e remote p w =
      Some (UploadFile (up e) remote p (ModTime info) (Some (onSuccess_cb e remote))
              (Some (onError_cb e)) w)"
    using assms(1-5) by (auto simp: handleUpload_def)
  also have "UploadFile (up e) remote p (ModTime info) (Some (onSuccess_cb e remote))
              (Some (onError_cb e)) w =
      (OpenFile p # ReadAll p # concat (replicate k [upload_request remote p, Wait (2 * Second)])
         @ [upload_request remote p], onSuccess_cb e remote p h (ModTime info) w)"
    using assms(6-10) by (simp add: UploadFile_first_success)
  finally show ?thesis by (simp add: onSuccess_cb_row)
qed

lemma scenario_first_post: "succeeded (post server_ok 0)"
  by (simp add: server_ok_def succeeded_def)

theorem success_path_record_witness:
  "stat0 scenario_env = Some \<lparr>Size = 10, ModTime = 111\<rparr> \<and>
   (\<exists>l w' r. handleUpload scenario_pd scenario_env scenario_remote ''/w/a.pdf'' scenario_world
                = Some (l, w') \<and>
             file_log w' ''/w/a.pdf'' = Some r \<and> status r = Some StatusVerified \<and>
             file_hash r = Some ''0a'' \<and> mod_time r = Some 111 \<and> error_count r = Some 0 \<and>
             file_size r = Some 0 \<and> file_size r \<noteq> Some 10)"
proof -
  have s: "stat0 scenario_env = Some \<lparr>Size = 10, ModTime = 111\<rparr>" by (simp add: scenario_env_def)
  have l: "stability_loop (threshold_of scenario_remote) (maxWait_of scenario_pd scenario_remote)
      (probes scenario_env) (Size \<lparr>Size = 10, ModTime = 111\<rparr>, 0) = Some Stable"
    by (simp add: scenario_threshold scenario_maxWait scenario_env_def stable_probes_Stable)
  have n: "\<not> (([] = StatusUploaded \<or> [] = StatusVerified) \<and> 0 = ModTime \<lparr>Size = 10, ModTime = 111\<rparr>)"
    by simp
  have u: "open_ok (up scenario_env)" "hash_of (up scenario_env) = Some ''0a''"
    "succeeded (post (up scenario_env) 0)"
    by (simp_all add: scenario_env_def scenario_first_post) (simp_all add: server_ok_def)
  have "\<exists>l w' r. handleUpload scenario_pd scenario_env scenario_remote ''/w/a.pdf'' scenario_world
                = Some (l, w') \<and>
             file_log w' ''/w/a.pdf'' = Some r \<and> status r = Some StatusVerified \<and>
             file_hash r = Some ''0a'' \<and> mod_time r = Some (ModTime \<lparr>Size = 10, ModTime = 111\<rparr>) \<and>
             error_count r = Some 0 \<and> file_size r = Some 0"
    by (rule success_path_record [OF s no_record _ n l u(1,2) _ _ u(3)]) simp_all
  then show ?thesis using s by auto
qed


lemma stability_loop_step:
  "n < threshold \<Longrightarrow>
   stability_loop threshold maxWait (p # ps) (lsize, n) =
     (case stability_step maxWait p (lsize, n) of
        Inl x \<Rightarrow> Some x
      | Inr st' \<Rightarrow> stability_loop threshold maxWait ps st')"
  by (simp add: stability_loop.simps)

lemma handleUpload_loop_aborted:
  assumes "stat0 e = Some info"
    and "GetFileRecord (file_log w) path = (st, dbModTime, dbHash, errorCount)"
    and "\<not> ((st = StatusUploaded \<or> st = StatusVerified) \<and> dbModTime = ModTime info)"
    and "stability_loop (threshold_of remote) (maxWait_of pd remote) (probes e) (Size info, 0)
           = Some x"
    and "x \<noteq> Stable"
  shows "handleUpload pd e remote path w = Some ([], w)"
  using assms by (cases x) (auto simp: handleUpload_def)

text \<open>
  C4 as the code has it. In an iteration of the stability loop that reaches its probe (no
  timeout, no shutdown), a stat that fails ends the loop with an error, and a worker whose
  loop ends so returns with no upload and the world as it was: the cycle for the file is
  aborted. A lock probe that fails (the size is unchanged and the file does not open)
  resets the stability counter to zero, and the loop continues with the next probe.
\<close>

theorem stability_probe_failures:
  "(n < threshold \<and> \<not> since p > maxWait \<and> \<not> shutdown p \<longrightarrow>
      (stat p = None \<longrightarrow>
         stability_step maxWait p (lsize, n) = Inl StatError \<and>
         stability_loop threshold maxWait (p # ps) (lsize, n) = Some StatError) \<and>
      (stat p = Some fi \<and> Size fi = lsize \<and> \<not> openable p \<longrightarrow>
         stability_step maxWait p (lsize, n) = Inr (lsize, 0) \<and>
         stability_loop threshold maxWait (p # ps) (lsize, n)
           = stability_loop threshold maxWait ps (lsize, 0))) \<and>
   (stat0 e = Some info \<and>
    GetFileRecord (file_log w) path = (st, dbModTime, dbHash, errorCount) \<and>
    \<not> ((st = StatusUploaded \<or> st = StatusVerified) \<and> dbModTime = ModTime info) \<and>
    stability_loop (threshold_of remote) (maxWait_of pd remote) (probes e) (Size info, 0)
      = Some StatError \<longrightarrow>
    handleUpload pd e remote path w = Some ([], w))"
proof (intro conjI impI)
  assume a: "n < threshold \<and> \<not> since p > maxWait \<and> \<not> shutdown p" and b: "stat p = None"
  show s: "stability_step maxWait p (lsize, n) = Inl StatError"
    using a b by (simp add: stability_step_def)
  show "stability_loop threshold maxWait (p # ps) (lsize, n) = Some StatError"
    using a s by (simp add: stability_loop_step)
next
  assume a: "n < threshold \<and> \<not> since p > maxWait \<and> \<not> shutdown p"
    and b: "stat p = Some fi \<and> Size fi = lsize \<and> \<not> openable p"
  show s: "stability_step maxWait p (lsize, n) = Inr (lsize, 0)"
    using a b by (simp add: stability_step_def)
  show "stability_loop threshold maxWait (p # ps) (lsize, n) = stability_loop threshold maxWait ps (lsize, 0)"
    using a s by (simp add: stability_loop_step)
next
  assume "stat0 e = Some info \<and>
    GetFileRecord (file_log w) path = (st, dbModTime, dbHash, errorCount) \<and>
    \<not> ((st = StatusUploaded \<or> st = StatusVerified) \<and> dbModTime = ModTime info) \<and>
    stability_loop (threshold_of remote) (maxWait_of pd remote) (probes e) (Size info, 0)
      = Some StatError"
  then show "handleUpload pd e remote path w = Some ([], w)"
    using handleUpload_loop_aborted [of e info w path st dbModTime dbHash errorCount remote pd StatError]
    by simp
qed

lemma stat_fails_loop:
  "stability_loop 2 (30 * Minute) (stat_fails # stable_probes) (10, 0) = Some StatError"
  by (simp add: stability_loop_step stability_step_def stat_fails_def Second_def Minute_def)

text \<open>
  C4 as stated fails: with a counter of 1, a failing stat does not give the counter 0 and
  the next probe but the end of the loop; and a worker whose first probe fails to stat
  returns without upload although the two probes that follow would have found the file
  stable.
\<close>

theorem stability_probe_failures_counterexample:
  "stability_step (30 * Minute) stat_fails (10, 1) = Inl StatError \<and>
   stability_loop 2 (30 * Minute) stable_probes (10, 0) = Some Stable \<and>
   handleUpload scenario_pd (scenario_env\<lparr>probes := stat_fails # stable_probes\<rparr>) scenario_remote
     ''/w/a.pdf'' scenario_world = Some ([], scenario_world)"
proof -
  have "stability_step (30 * Minute) stat_fails (10, 1) = Inl StatError"
    by (simp add: stability_step_def stat_fails_def Second_def Minute_def)
  moreover have "handleUpload scenario_pd (scenario_env\<lparr>probes := stat_fails # stable_probes\<rparr>)
      scenario_remote ''/w/a.pdf'' scenario_world = Some ([], scenario_world)"
    by (rule handleUpload_loop_aborted [where x = StatError and info = "\<lparr>Size = 10, ModTime = 111\<rparr>"
          and st = "[]" and dbModTime = 0 and dbHash = "[]" and errorCount = 0])
      (simp_all add: scenario_env_def no_record scenario_threshold scenario_maxWait stat_fails_loop)
  ultimately show ?thesis using stable_probes_Stable by simp
qed

theorem stability_probe_failures_witness:
  "stability_loop 2 (30 * Minute) (stat_fails # stable_probes) (10, 1) = Some StatError \<and>
   stability_loop 2 (30 * Minute) (file_busy # stable_probes) (10, 1) = Some Stable \<and>
   handleUpload scenario_pd (scenario_env\<lparr>probes := stat_fails # stable_probes\<rparr>) scenario_remote
     ''/w/a.pdf'' scenario_world = Some ([], scenario_world)"
proof -
  have pre: "(1::int) < 2 \<and> \<not> since stat_fails > 30 * Minute \<and> \<not> shutdown stat_fails"
    "(1::int) < 2 \<and> \<not> since file_busy > 30 * Minute \<and> \<not> shutdown file_busy"
    by (simp_all add: stat_fails_def file_busy_def Second_def Minute_def)
  have a: "stability_loop 2 (30 * Minute) (stat_fails # stable_probes) (10, 1) = Some StatError"
    using stability_probe_failures [where n = 1 and threshold = 2 and p = stat_fails
        and maxWait = "30 * Minute" and lsize = 10 and ps = stable_probes] pre(1)
    by (simp add: stat_fails_def)
  have "stability_loop 2 (30 * Minute) (file_busy # stable_probes) (10, 1)
      = stability_loop 2 (30 * Minute) stable_probes (10, 0)"
    using stability_probe_failures [where n = 1 and threshold = 2 and p = file_busy
        and maxWait = "30 * Minute" and lsize = 10 and ps = stable_probes
        and fi = "\<lparr>Size = 10, ModTime = 111\<rparr>"] pre(2)
    by (simp add: file_busy_def)
  then have b: "stability_loop 2 (30 * Minute) (file_busy # stable_probes) (10, 1) = Some Stable"
    by (simp add: stable_probes_Stable)
  have c: "handleUpload scenario_pd (scenario_env\<lparr>probes := stat_fails # stable_probes\<rparr>)
      scenario_remote ''/w/a.pdf'' scenario_world = Some ([], scenario_world)"
    using stability_probe_failures [where e = "scenario_env\<lparr>probes := stat_fails # stable_probes\<rparr>"
        and info = "\<lparr>Size = 10, ModTime = 111\<rparr>" and w = scenario_world and path = "''/w/a.pdf''"
        and st = "[]" and dbModTime = 0 and dbHash = "[]" and errorCount = 0
        and remote = scenario_remote and pd = scenario_pd]
    by (simp add: scenario_env_def no_record scenario_threshold scenario_maxWait stat_fails_loop)
  from a b c show ?thesis by simp
qed


text \<open>
  C5 as the code has it. For every path whose File-Log row has status UPLOADED or
  VERIFIED, an error count of at most 10 and a stored modification time equal to the
  file's current one, the worker performs no upload (no read, no POST, no File-Log write):
  it attempts the Done-Move and returns. With an error count above 10 the worker returns
  at once, and attempts no Done-Move.
\<close>

theorem already_delivered:
  "(stat0 e = Some info \<and>
    GetFileRecord (file_log w) path = (st, ModTime info, h, errorCount) \<and>
    (st = StatusUploaded \<or> st = StatusVerified) \<and> errorCount \<le> 10 \<longrightarrow>
      handleUpload pd e remote path w = Some ([], moveToDone (mv e) path remote w) \<and>
      file_log (moveToDone (mv e) path remote w) = file_log w) \<and>
   (stat0 e = Some info \<and>
    GetFileRecord (file_log w) path = (st, ModTime info, h, errorCount) \<and> errorCount > 10 \<longrightarrow>
      handleUpload pd e remote path w = Some ([], w))"
  by (auto simp: handleUpload_def moveToDone_file_log)

lemma failed_record:
  "GetFileRecord (file_log failed_world) ''/w/a.pdf'' = (StatusVerified, 111, ''0a'', 11)"
  by (simp add: failed_world_def eval_nat_numeral GetFileRecord_def UpdateFileStatus_def
      IncrementError_def)

lemma scenario_fs: "fs scenario_world ''/w/a.pdf'' = Some (Regular 10 111)"
  by (simp add: scenario_world_def)

lemma scenario_moved:
  "fs w = fs scenario_world \<Longrightarrow>
   fs (moveToDone move_granted ''/w/a.pdf'' scenario_remote w) =
     [''/w'' \<mapsto> Directory, ''/w/.done'' \<mapsto> Directory, ''/w/.done/a.pdf'' \<mapsto> Regular 10 111]"
  by (auto simp add: move_eval path_eval move_granted_def scenario_world_def fun_eq_iff)

text \<open>
  C5 as stated fails for a row with an error count of 11: the row is VERIFIED with the
  file's modification time, the worker returns with the world as it was, and the file is
  still at its path, where a Done-Move would have taken it away.
\<close>

theorem already_delivered_counterexample:
  "stat0 scenario_env = Some \<lparr>Size = 10, ModTime = 111\<rparr> \<and>
   GetFileRecord (file_log failed_world) ''/w/a.pdf'' = (StatusVerified, 111, ''0a'', 11) \<and>
   handleUpload scenario_pd scenario_env scenario_remote ''/w/a.pdf'' failed_world
     = Some ([], failed_world) \<and>
   fs failed_world ''/w/a.pdf'' = Some (Regular 10 111) \<and>
   fs (moveToDone (mv scenario_env) ''/w/a.pdf'' scenario_remote failed_world) ''/w/a.pdf'' = None"
proof -
  have s: "stat0 scenario_env = Some \<lparr>Size = 10, ModTime = 111\<rparr>" by (simp add: scenario_env_def)
  have "handleUpload scenario_pd scenario_env scenario_remote ''/w/a.pdf'' failed_world
     = Some ([], failed_world)"
    by (simp add: handleUpload_def s failed_record)
  moreover have f: "fs failed_world = fs scenario_world" by (simp add: failed_world_def)
  moreover have "fs (moveToDone (mv scenario_env) ''/w/a.pdf'' scenario_remote failed_world) ''/w/a.pdf'' = None"
    using scenario_moved [OF f] by (simp add: scenario_env_def)
  ultimately show ?thesis using s failed_record scenario_fs by simp
qed

theorem already_delivered_witness:
  "handleUpload scenario_pd scenario_env scenario_remote ''/w/a.pdf'' verified_world
     = Some ([], moveToDone move_granted ''/w/a.pdf'' scenario_remote verified_world) \<and>
   file_log (moveToDone move_granted ''/w/a.pdf'' scenario_remote verified_world)
     = file_log verified_world \<and>
   fs (moveToDone move_granted ''/w/a.pdf'' scenario_remote verified_world) =
     [''/w'' \<mapsto> Directory, ''/w/.done'' \<mapsto> Directory, ''/w/.done/a.pdf'' \<mapsto> Regular 10 111] \<and>
   handleUpload scenario_pd scenario_env scenario_remote ''/w/a.pdf'' failed_world
     = Some ([], failed_world)"
proof -
  have s: "stat0 scenario_env = Some \<lparr>Size = 10, ModTime = 111\<rparr>" "mv scenario_env = move_granted"
    by (simp_all add: scenario_env_def)
  have f: "fs verified_world = fs scenario_world" by (simp add: verified_world_def)
  from already_delivered [where e = scenario_env and info = "\<lparr>Size = 10, ModTime = 111\<rparr>"
      and w = verified_world and path = "''/w/a.pdf''" and st = StatusVerified and h = "''0a''"
      and errorCount = 0 and pd = scenario_pd and remote = scenario_remote]
    s verified_record
  have a: "handleUpload scenario_pd scenario_env scenario_remote ''/w/a.pdf'' verified_world
       = Some ([], moveToDone move_granted ''/w/a.pdf'' scenario_remote verified_world) \<and>
     file_log (moveToDone move_granted ''/w/a.pdf'' scenario_remote verified_world)
       = file_log verified_world"
    by simp
  from already_delivered [where e = scenario_env and info = "\<lparr>Size = 10, ModTime = 111\<rparr>"
      and w = failed_world and path = "''/w/a.pdf''" and st = StatusVerified and h = "''0a''"
      and errorCount = 11 and pd = scenario_pd and remote = scenario_remote]
    s failed_record
  have b: "handleUpload scenario_pd scenario_env scenario_remote ''/w/a.pdf'' failed_world
     = Some ([], failed_world)"
    by simp
  from a b scenario_moved [OF f] show ?thesis by simp
qed

section \<open>Properties of the integrity handshake\<close>

lemma success_body_succeeded: "succeeded r \<longleftrightarrow> success_body r \<noteq> None"
  by (cases r) (auto simp: success_body_def succeeded_def)

lemma legacy_attempts_retry:
  "i < 3 \<Longrightarrow> success_body (post (lup e) i) = None \<Longrightarrow>
   legacy_attempts e remote p h m d i w =
     (upload_request remote p # Wait (2 * Second) # fst (legacy_attempts e remote p h m d (Suc i) w),
      snd (legacy_attempts e remote p h m d (Suc i) w))"
  by (subst legacy_attempts.simps) (simp add: case_prod_unfold)

lemma legacy_attempts_answer:
  "i < 3 \<Longrightarrow> success_body (post (lup e) i) = Some b \<Longrightarrow>
   legacy_attempts e remote p h m d i w =
     ([upload_request remote p],
      (case handshake (ldb_now e) p h m b (file_log w) of
         Inl db' \<Rightarrow> w\<lparr>file_log := db'\<rparr>
       | Inr db' \<Rightarrow> w\<lparr>file_log := db', fs := legacy_move e p d (fs w)\<rparr>))"
  by (subst legacy_attempts.simps) (simp split: sum.split)

lemma legacy_attempts_skip:
  "i + k \<le> 3 \<Longrightarrow> \<forall>j<k. success_body (post (lup e) (i + j)) = None \<Longrightarrow>
   fst (legacy_attempts e remote p h m d i w) =
     concat (replicate k [upload_request remote p, Wait (2 * Second)])
        @ fst (legacy_attempts e remote p h m d (i + k) w) \<and>
   snd (legacy_attempts e remote p h m d i w) = snd (legacy_attempts e remote p h m d (i + k) w)"
proof (induction k arbitrary: i)
  case 0
  show ?case by simp
next
  case (Suc k)
  have i3: "i < 3" using Suc.prems(1) by simp
  have f0: "success_body (post (lup e) i) = None" using Suc.prems(2) by force
  have rest: "\<forall>j<k. success_body (post (lup e) (Suc i + j)) = None"
  proof (intro allI impI)
    fix j assume "j < k"
    then have "Suc j < Suc k" by simp
    then show "success_body (post (lup e) (Suc i + j)) = None"
      using Suc.prems(2) by (metis add_Suc_shift)
  qed
  have le: "Suc i + k \<le> 3" using Suc.prems(1) by simp
  have step: "fst (legacy_attempts e remote p h m d i w) =
      upload_request remote p # Wait (2 * Second) # fst (legacy_attempts e remote p h m d (Suc i) w)"
    "snd (legacy_attempts e remote p h m d i w) = snd (legacy_attempts e remote p h m d (Suc i) w)"
    by (simp_all add: legacy_attempts_retry [OF i3 f0])
  have ih: "fst (legacy_attempts e remote p h m d (Suc i) w) =
      concat (replicate k [upload_request remote p, Wait (2 * Second)])
        @ fst (legacy_attempts e remote p h m d (Suc i + k) w)"
    "snd (legacy_attempts e remote p h m d (Suc i) w) = snd (legacy_attempts e remote p h m d (Suc i + k) w)"
    using Suc.IH [OF le rest] by simp_all
  show ?case unfolding step by (simp add: ih)
qed

text \<open>The world in which the earlier uploader starts its attempts: \<open>.done\<close> is there if it could be made.\<close>

lemma uploadFile_first_answer:
  assumes "open_ok (lup e)" "hash_of (lup e) = Some h" "k < 3"
    and "\<forall>j<k. success_body (post (lup e) j) = None"
    and "success_body (post (lup e) k) = Some b"
    and "d = filepath_Join (filepath_Dir p) ''.done''"
    and "w1 = (if Stat (fs w) d = None then w\<lparr>fs := Mkdir (lmkdir_granted e) d (fs w)\<rparr> else w)"
  shows "uploadFile e remote p m w =
     (OpenFile p # ReadAll p # concat (replicate k [upload_request remote p, Wait (2 * Second)])
        @ [upload_request remote p],
      (case handshake (ldb_now e) p h m b (file_log w) of
         Inl db' \<Rightarrow> w1\<lparr>file_log := db'\<rparr>
       | Inr db' \<Rightarrow> w1\<lparr>file_log := db', fs := legacy_move e p d (fs w1)\<rparr>))"
proof -
  have "0 + k \<le> 3" using assms(3) by simp
  from legacy_attempts_skip [OF this, of e remote p h m d w1] assms(4)
  have "fst (legacy_attempts e remote p h m d 0 w1) =
      concat (replicate k [upload_request remote p, Wait (2 * Second)])
        @ fst (legacy_attempts e remote p h m d k w1)"
    and "snd (legacy_attempts e remote p h m d 0 w1) = snd (legacy_attempts e remote p h m d k w1)"
    by simp_all
  moreover have "file_log w1 = file_log w" using assms(7) by simp
  moreover have "uploadFile e remote p m w =
      (OpenFile p # ReadAll p # fst (legacy_attempts e remote p h m d 0 w1),
       snd (legacy_attempts e remote p h m d 0 w1))"
    using assms(1,2,6,7) by (simp add: uploadFile_def Let_def case_prod_unfold)
  ultimately show ?thesis
    using assms(3,5) by (simp add: legacy_attempts_answer)
qed

lemma handshake_mismatch:
  "js ''sha256'' = Some (JString remoteHash) \<Longrightarrow> remoteHash \<noteq> h \<Longrightarrow>
   handshake now p h m (JSONObject js) db = Inl (IncrementError p now (MarkCorrupt p now db))"
  by (simp add: handshake_def)

lemma handshake_absent:
  "js ''sha256'' = None \<Longrightarrow>
   handshake now p h m (JSONObject js) db = Inr (UpdateFileStatus p StatusUploaded h m 0 now db)"
  by (simp add: handshake_def)

lemma corrupt_row:
  "db p = Some r \<Longrightarrow>
   IncrementError p now (MarkCorrupt p now db) p =
     Some (r\<lparr>status := Some StatusCorrupt, last_attempt_at := Some now,
            error_count := map_option (\<lambda>n. n + 1) (error_count r)\<rparr>)"
  by (simp add: IncrementError_def MarkCorrupt_def)

lemma corrupt_no_row: "db p = None \<Longrightarrow> IncrementError p now (MarkCorrupt p now db) = db"
  by (simp add: IncrementError_def MarkCorrupt_def)


lemma Mkdir_keeps: "f p = Some n \<Longrightarrow> Mkdir granted d f p = Some n"
  by (auto simp: Mkdir_def)

text \<open>
  C2 as the code has it. The uploader in use, \<open>api.UploadFile\<close>, does not read the response
  body: when attempt \<open>k\<close> is the first to get a 2xx response, whatever its body \<open>b\<close>, the
  upload is a success: no further attempt is made and \<open>onSuccess\<close> runs (row VERIFIED
  with error count 0, Done-Move).

  The handshake is in the earlier uploader \<open>cmd.uploadFile\<close>. There, when attempt \<open>k\<close> is the
  first to get a 2xx response and its body is a JSON object: if the object has a string
  field \<open>sha256\<close> that differs from the local hash, \<open>markCorrupt\<close> and \<open>incrementError\<close> run
  for the path, no further attempt is made and the file is not moved (a file that was at
  the path is still there); if the object has no field \<open>sha256\<close>, the upload is a success:
  the row is written as UPLOADED and the move is attempted. \<open>markCorrupt\<close> followed by
  \<open>incrementError\<close> turns the path's row to CORRUPT and adds one to its error count, and
  changes nothing for a path that has no row.
\<close>

theorem integrity_handshake:
  "(open_ok (up e) \<and> hash_of (up e) = Some h \<and> k < 3 \<and>
    (\<forall>j<k. \<not> succeeded (post (up e) j) \<and> \<not> cancelled (up e) j) \<and>
    post (up e) k = Response code b \<and> 200 \<le> code \<and> code < 300 \<longrightarrow>
      UploadFile (up e) remote p m (Some (onSuccess_cb e remote)) (Some (onError_cb e)) w =
        (OpenFile p # ReadAll p #
           concat (replicate k [upload_request remote p, Wait (2 * Second)]) @ [upload_request remote p],
         onSuccess_cb e remote p h m w)) \<and>
   (open_ok (lup le) \<and> hash_of (lup le) = Some h \<and> k < 3 \<and>
    (\<forall>j<k. \<not> succeeded (post (lup le) j)) \<and>
    post (lup le) k = Response code (JSONObject js) \<and> 200 \<le> code \<and> code < 300 \<longrightarrow>
      (let d = filepath_Join (filepath_Dir p) ''.done'';
           w1 = (if Stat (fs w) d = None then w\<lparr>fs := Mkdir (lmkdir_granted le) d (fs w)\<rparr> else w);
           l = OpenFile p # ReadAll p #
                 concat (replicate k [upload_request remote p, Wait (2 * Second)])
                 @ [upload_request remote p]
       in (js ''sha256'' = Some (JString rh) \<and> rh \<noteq> h \<longrightarrow>
             uploadFile le remote p m w =
               (l, w1\<lparr>file_log := IncrementError p (ldb_now le)
                                     (MarkCorrupt p (ldb_now le) (file_log w))\<rparr>)) \<and>
          (js ''sha256'' = None \<longrightarrow>
             uploadFile le remote p m w =
               (l, w1\<lparr>file_log := UpdateFileStatus p StatusUploaded h m 0 (ldb_now le) (file_log w),
                       fs := legacy_move le p d (fs w1)\<rparr>)) \<and>
          (fs w p = Some n \<longrightarrow> fs w1 p = Some n))) \<and>
   (file_log w p = Some r \<longrightarrow>
      IncrementError p now (MarkCorrupt p now (file_log w)) p =
        Some (r\<lparr>status := Some StatusCorrupt, last_attempt_at := Some now,
               error_count := map_option (\<lambda>n. n + 1) (error_count r)\<rparr>)) \<and>
   (file_log w p = None \<longrightarrow> IncrementError p now (MarkCorrupt p now (file_log w)) = file_log w)"
proof (intro conjI impI)
  assume a: "open_ok (up e) \<and> hash_of (up e) = Some h \<and> k < 3 \<and>
    (\<forall>j<k. \<not> succeeded (post (up e) j) \<and> \<not> cancelled (up e) j) \<and>
    post (up e) k = Response code b \<and> 200 \<le> code \<and> code < 300"
  then have s: "succeeded (post (up e) k)" by (simp add: succeeded_def)
  have "UploadFile (up e) remote p m (Some (onSuccess_cb e remote)) (Some (onError_cb e)) w =
        (OpenFile p # ReadAll p #
           concat (replicate k [upload_request remote p, Wait (2 * Second)]) @ [upload_request remote p],
         (case Some (onSuccess_cb e remote) of None \<Rightarrow> w | Some f \<Rightarrow> f p h m w))"
    using a s by (intro UploadFile_first_success) blast+
  then show "UploadFile (up e) remote p m (Some (onSuccess_cb e remote)) (Some (onError_cb e)) w =
        (OpenFile p # ReadAll p #
           concat (replicate k [upload_request remote p, Wait (2 * Second)]) @ [upload_request remote p],
         onSuccess_cb e remote p h m w)"
    by simp
next
  assume a: "open_ok (lup le) \<and> hash_of (lup le) = Some h \<and> k < 3 \<and>
    (\<forall>j<k. \<not> succeeded (post (lup le) j)) \<and>
    post (lup le) k = Response code (JSONObject js) \<and> 200 \<le> code \<and> code < 300"
  define d where "d = filepath_Join (filepath_Dir p) ''.done''"
  define w1 where "w1 = (if Stat (fs w) d = None then w\<lparr>fs := Mkdir (lmkdir_granted le) d (fs w)\<rparr> else w)"
  have none: "\<forall>j<k. success_body (post (lup le) j) = None"
    using a by (simp add: success_body_succeeded)
  have some: "success_body (post (lup le) k) = Some (JSONObject js)"
    using a by (simp add: success_body_def)
  have run: "uploadFile le remote p m w =
     (OpenFile p # ReadAll p # concat (replicate k [upload_request remote p, Wait (2 * Second)])
        @ [upload_request remote p],
      (case handshake (ldb_now le) p h m (JSONObject js) (file_log w) of
         Inl db' \<Rightarrow> w1\<lparr>file_log := db'\<rparr>
       | Inr db' \<Rightarrow> w1\<lparr>file_log := db', fs := legacy_move le p d (fs w1)\<rparr>))"
    using a none some by (intro uploadFile_first_answer) (simp_all add: d_def w1_def)
  have keep: "fs w p = Some n \<longrightarrow> fs w1 p = Some n"
    by (simp add: w1_def Mkdir_keeps)
  show "let d = filepath_Join (filepath_Dir p) ''.done'';
           w1 = (if Stat (fs w) d = None then w\<lparr>fs := Mkdir (lmkdir_granted le) d (fs w)\<rparr> else w);
           l = OpenFile p # ReadAll p #
                 concat (replicate k [upload_request remote p, Wait (2 * Second)])
                 @ [upload_request remote p]
       in (js ''sha256'' = Some (JString rh) \<and> rh \<noteq> h \<longrightarrow>
             uploadFile le remote p m w =
               (l, w1\<lparr>file_log := IncrementError p (ldb_now le)
                                     (MarkCorrupt p (ldb_now le) (file_log w))\<rparr>)) \<and>
          (js ''sha256'' = None \<longrightarrow>
             uploadFile le remote p m w =
               (l, w1\<lparr>file_log := UpdateFileStatus p StatusUploaded h m 0 (ldb_now le) (file_log w),
                       fs := legacy_move le p d (fs w1)\<rparr>)) \<and>
          (fs w p = Some n \<longrightarrow> fs w1 p = Some n)"
    unfolding Let_def d_def [symmetric] w1_def [symmetric]
    using run keep by (simp add: handshake_mismatch handshake_absent)
next
  assume "file_log w p = Some r"
  then show "IncrementError p now (MarkCorrupt p now (file_log w)) p =
        Some (r\<lparr>status := Some StatusCorrupt, last_attempt_at := Some now,
               error_count := map_option (\<lambda>n. n + 1) (error_count r)\<rparr>)"
    by (rule corrupt_row)
next
  assume "file_log w p = None"
  then show "IncrementError p now (MarkCorrupt p now (file_log w)) = file_log w"
    by (rule corrupt_no_row)
qed


lemma handleUpload_uploads:
  assumes "stat0 e = Some info"
    and "GetFileRecord (file_log w) p = (st, dbModTime, dbHash, errorCount)"
    and "errorCount \<le> 10"
    and "\<not> ((st = StatusUploaded \<or> st = StatusVerified) \<and> dbModTime = ModTime info)"
    and "stability_loop (threshold_of remote) (maxWait_of pd remote) (probes e) (Size info, 0)
           = Some Stable"
  shows "handleUpload pd e remote p w =
      Some (UploadFile (up e) remote p (ModTime info) (Some (onSuccess_cb e remote))
              (Some (onError_cb e)) w)"
  using assms by (auto simp: handleUpload_def)

lemma stale_record:
  "GetFileRecord (file_log stale_world) ''/w/a.pdf'' = (StatusVerified, 100, ''ff'', 2)"
  by (simp add: stale_world_def eval_nat_numeral GetFileRecord_def UpdateFileStatus_def
      IncrementError_def)

lemma mismatch_server_facts:
  "open_ok mismatch_server" "hash_of mismatch_server = Some ''0a''"
  "post mismatch_server i = Response 200 mismatch_body" "\<not> cancelled mismatch_server i"
  by (simp_all add: mismatch_server_def server_ok_def)

lemma mismatch_env_facts:
  "stat0 mismatch_env = Some \<lparr>Size = 10, ModTime = 111\<rparr>" "probes mismatch_env = stable_probes"
  "up mismatch_env = mismatch_server" "mv mismatch_env = move_granted" "db_now mismatch_env = 5"
  by (simp_all add: mismatch_env_def scenario_env_def)

lemma mismatch_upload:
  "UploadFile mismatch_server scenario_remote ''/w/a.pdf'' 111 (Some S) E w =
     ([OpenFile ''/w/a.pdf'', ReadAll ''/w/a.pdf'', upload_request scenario_remote ''/w/a.pdf''],
      S ''/w/a.pdf'' ''0a'' 111 w)"
  using UploadFile_first_success [of mismatch_server "''0a''" 0 scenario_remote "''/w/a.pdf''" 111 "Some S" E w]
  by (simp add: mismatch_server_facts succeeded_def)

text \<open>
  C2 as stated fails for the uploader in use. The server answers 200 with the body
  \<open>mismatch_body\<close>, a JSON object whose string field \<open>sha256\<close> is \<open>deadbeef\<close> and not the local
  hash \<open>0a\<close>; the path has a VERIFIED row of an earlier delivery with error count 2. The worker posts once, and then the row is VERIFIED with the new
  hash and error count 0 (not CORRUPT, not 3), and the file is in \<open>.done\<close>.
\<close>

theorem integrity_handshake_counterexample:
  "hash_of mismatch_server = Some ''0a'' \<and>
   post mismatch_server 0 = Response 200 mismatch_body \<and>
   GetFileRecord (file_log stale_world) ''/w/a.pdf'' = (StatusVerified, 100, ''ff'', 2) \<and>
   handleUpload scenario_pd mismatch_env scenario_remote ''/w/a.pdf'' stale_world =
     Some ([OpenFile ''/w/a.pdf'', ReadAll ''/w/a.pdf'', upload_request scenario_remote ''/w/a.pdf''],
           onSuccess_cb mismatch_env scenario_remote ''/w/a.pdf'' ''0a'' 111 stale_world) \<and>
   GetFileRecord (file_log (onSuccess_cb mismatch_env scenario_remote ''/w/a.pdf'' ''0a'' 111 stale_world))
     ''/w/a.pdf'' = (StatusVerified, 111, ''0a'', 0) \<and>
   fs stale_world ''/w/a.pdf'' = Some (Regular 10 111) \<and>
   fs (onSuccess_cb mismatch_env scenario_remote ''/w/a.pdf'' ''0a'' 111 stale_world) ''/w/a.pdf'' = None \<and>
   fs (onSuccess_cb mismatch_env scenario_remote ''/w/a.pdf'' ''0a'' 111 stale_world) ''/w/.done/a.pdf''
     = Some (Regular 10 111)"
proof -
  have l: "stability_loop (threshold_of scenario_remote) (maxWait_of scenario_pd scenario_remote)
      (probes mismatch_env) (Size \<lparr>Size = 10, ModTime = 111\<rparr>, 0) = Some Stable"
    by (simp add: scenario_threshold scenario_maxWait mismatch_env_facts stable_probes_Stable)
  have "handleUpload scenario_pd mismatch_env scenario_remote ''/w/a.pdf'' stale_world =
      Some (UploadFile (up mismatch_env) scenario_remote ''/w/a.pdf'' (ModTime \<lparr>Size = 10, ModTime = 111\<rparr>)
              (Some (onSuccess_cb mismatch_env scenario_remote)) (Some (onError_cb mismatch_env)) stale_world)"
    by (rule handleUpload_uploads [OF mismatch_env_facts(1) stale_record _ _ l]) simp_all
  then have a: "handleUpload scenario_pd mismatch_env scenario_remote ''/w/a.pdf'' stale_world =
     Some ([OpenFile ''/w/a.pdf'', ReadAll ''/w/a.pdf'', upload_request scenario_remote ''/w/a.pdf''],
           onSuccess_cb mismatch_env scenario_remote ''/w/a.pdf'' ''0a'' 111 stale_world)"
    by (simp add: mismatch_env_facts mismatch_upload)
  have b: "GetFileRecord (file_log (onSuccess_cb mismatch_env scenario_remote ''/w/a.pdf'' ''0a'' 111 stale_world))
     ''/w/a.pdf'' = (StatusVerified, 111, ''0a'', 0)"
    by (simp add: onSuccess_cb_def moveToDone_file_log GetFileRecord_UpdateFileStatus)
  have f: "fs (stale_world\<lparr>file_log := x\<rparr>) = fs scenario_world" for x
    by (simp add: stale_world_def)
  have c: "fs (onSuccess_cb mismatch_env scenario_remote ''/w/a.pdf'' ''0a'' 111 stale_world) =
     [''/w'' \<mapsto> Directory, ''/w/.done'' \<mapsto> Directory, ''/w/.done/a.pdf'' \<mapsto> Regular 10 111]"
    unfolding onSuccess_cb_def mismatch_env_facts by (rule scenario_moved) (rule f)
  have d: "fs stale_world ''/w/a.pdf'' = Some (Regular 10 111)"
    by (simp add: stale_world_def scenario_world_def)
  from a b c d stale_record mismatch_server_facts show ?thesis
    by simp
qed


lemma legacy_scenario_facts:
  "lup legacy_scenario = mismatch_server" "lmkdir_granted legacy_scenario = True"
  "ldb_now legacy_scenario = 7"
  by (simp_all add: legacy_scenario_def)

lemma legacy_plain_facts:
  "open_ok (lup legacy_plain)" "hash_of (lup legacy_plain) = Some ''0a''"
  "post (lup legacy_plain) i = Response 200 (JSONObject Map.empty)"
  "lmkdir_granted legacy_plain = True" "lrename_granted legacy_plain = True"
  "ldb_now legacy_plain = 7"
  by (simp_all add: legacy_plain_def plain_server_def legacy_scenario_def server_ok_def)

lemma stale_done_dir:
  "filepath_Join (filepath_Dir ''/w/a.pdf'') ''.done'' = ''/w/.done''"
  "Stat (fs stale_world) ''/w/.done'' = None"
  by (simp_all add: path_eval Stat_def stale_world_def scenario_world_def)

lemma legacy_plain_moved:
  "legacy_move legacy_plain ''/w/a.pdf'' ''/w/.done'' (Mkdir True ''/w/.done'' (fs stale_world)) =
     [''/w'' \<mapsto> Directory, ''/w/.done'' \<mapsto> Directory, ''/w/.done/a.pdf'' \<mapsto> Regular 10 111]"
  by (auto simp add: legacy_move_def legacy_plain_facts Mkdir_def Stat_def Rename_def Let_def
      path_eval stale_world_def scenario_world_def fun_eq_iff)

lemma stale_row:
  "file_log stale_world ''/w/a.pdf'' =
     Some \<lparr>file_hash = Some ''ff'', mod_time = Some 100, file_size = Some 0,
           status = Some StatusVerified, last_attempt_at = Some 6, tenant_id = None,
           error_count = Some 2\<rparr>"
  by (simp add: stale_world_def eval_nat_numeral UpdateFileStatus_def IncrementError_def)

theorem integrity_handshake_witness:
  "UploadFile mismatch_server scenario_remote ''/w/a.pdf'' 111
       (Some (onSuccess_cb mismatch_env scenario_remote)) (Some (onError_cb mismatch_env)) stale_world =
     ([OpenFile ''/w/a.pdf'', ReadAll ''/w/a.pdf'', upload_request scenario_remote ''/w/a.pdf''],
      onSuccess_cb mismatch_env scenario_remote ''/w/a.pdf'' ''0a'' 111 stale_world) \<and>
   uploadFile legacy_scenario scenario_remote ''/w/a.pdf'' 111 stale_world =
     ([OpenFile ''/w/a.pdf'', ReadAll ''/w/a.pdf'', upload_request scenario_remote ''/w/a.pdf''],
      stale_world\<lparr>fs := Mkdir True ''/w/.done'' (fs stale_world),
                  file_log := IncrementError ''/w/a.pdf'' 7
                                (MarkCorrupt ''/w/a.pdf'' 7 (file_log stale_world))\<rparr>) \<and>
   Mkdir True ''/w/.done'' (fs stale_world) ''/w/a.pdf'' = Some (Regular 10 111) \<and>
   IncrementError ''/w/a.pdf'' 7 (MarkCorrupt ''/w/a.pdf'' 7 (file_log stale_world)) ''/w/a.pdf'' =
     Some \<lparr>file_hash = Some ''ff'', mod_time = Some 100, file_size = Some 0,
           status = Some StatusCorrupt, last_attempt_at = Some 7, tenant_id = None,
           error_count = Some 3\<rparr> \<and>
   IncrementError ''/w/a.pdf'' 7 (MarkCorrupt ''/w/a.pdf'' 7 (file_log scenario_world))
     = file_log scenario_world \<and>
   uploadFile legacy_plain scenario_remote ''/w/a.pdf'' 111 stale_world =
     ([OpenFile ''/w/a.pdf'', ReadAll ''/w/a.pdf'', upload_request scenario_remote ''/w/a.pdf''],
      stale_world\<lparr>file_log := UpdateFileStatus ''/w/a.pdf'' StatusUploaded ''0a'' 111 0 7
                                (file_log stale_world),
                  fs := [''/w'' \<mapsto> Directory, ''/w/.done'' \<mapsto> Directory,
                         ''/w/.done/a.pdf'' \<mapsto> Regular 10 111]\<rparr>)"
proof -
  note h = integrity_handshake [where e = mismatch_env and le = legacy_scenario and k = 0
      and code = 200 and b = mismatch_body and js = "[''sha256'' \<mapsto> JString ''deadbeef'']"
      and rh = "''deadbeef''" and h = "''0a''" and w = stale_world and p = "''/w/a.pdf''"
      and m = 111 and remote = scenario_remote and n = "Regular 10 111" and now = 7
      and r = "\<lparr>file_hash = Some ''ff'', mod_time = Some 100, file_size = Some 0,
           status = Some StatusVerified, last_attempt_at = Some 6, tenant_id = None,
           error_count = Some 2\<rparr>"]
  have pre1: "open_ok (up mismatch_env) \<and> hash_of (up mismatch_env) = Some ''0a'' \<and> (0::nat) < 3 \<and>
    (\<forall>j<0. \<not> succeeded (post (up mismatch_env) j) \<and> \<not> cancelled (up mismatch_env) j) \<and>
    post (up mismatch_env) 0 = Response 200 mismatch_body \<and> (200::int) \<le> 200 \<and> (200::int) < 300"
    by (simp add: mismatch_env_facts mismatch_server_facts)
  have pre2: "open_ok (lup legacy_scenario) \<and> hash_of (lup legacy_scenario) = Some ''0a'' \<and> (0::nat) < 3 \<and>
    (\<forall>j<0. \<not> succeeded (post (lup legacy_scenario) j)) \<and>
    post (lup legacy_scenario) 0 = Response 200 (JSONObject [''sha256'' \<mapsto> JString ''deadbeef'']) \<and>
    (200::int) \<le> 200 \<and> (200::int) < 300"
    by (simp add: legacy_scenario_facts mismatch_server_facts mismatch_body_def)
  have pre3: "[''sha256'' \<mapsto> JString ''deadbeef''] ''sha256'' = Some (JString ''deadbeef'') \<and> ''deadbeef'' \<noteq> ''0a''"
    by simp
  have pre4: "fs stale_world ''/w/a.pdf'' = Some (Regular 10 111)"
    by (simp add: stale_world_def scenario_world_def)
  from h pre1
  have a: "UploadFile mismatch_server scenario_remote ''/w/a.pdf'' 111
       (Some (onSuccess_cb mismatch_env scenario_remote)) (Some (onError_cb mismatch_env)) stale_world =
     ([OpenFile ''/w/a.pdf'', ReadAll ''/w/a.pdf'', upload_request scenario_remote ''/w/a.pdf''],
      onSuccess_cb mismatch_env scenario_remote ''/w/a.pdf'' ''0a'' 111 stale_world)"
    by (simp add: mismatch_env_facts)
  from h pre2 pre3 pre4
  have b: "uploadFile legacy_scenario scenario_remote ''/w/a.pdf'' 111 stale_world =
     ([OpenFile ''/w/a.pdf'', ReadAll ''/w/a.pdf'', upload_request scenario_remote ''/w/a.pdf''],
      stale_world\<lparr>fs := Mkdir True ''/w/.done'' (fs stale_world),
                  file_log := IncrementError ''/w/a.pdf'' 7
                                (MarkCorrupt ''/w/a.pdf'' 7 (file_log stale_world))\<rparr>) \<and>
     Mkdir True ''/w/.done'' (fs stale_world) ''/w/a.pdf'' = Some (Regular 10 111)"
    unfolding Let_def stale_done_dir legacy_scenario_facts by simp
  from h stale_row
  have c: "IncrementError ''/w/a.pdf'' 7 (MarkCorrupt ''/w/a.pdf'' 7 (file_log stale_world)) ''/w/a.pdf'' =
     Some \<lparr>file_hash = Some ''ff'', mod_time = Some 100, file_size = Some 0,
           status = Some StatusCorrupt, last_attempt_at = Some 7, tenant_id = None,
           error_count = Some 3\<rparr>"
    by simp
  have "file_log scenario_world ''/w/a.pdf'' = None" by (simp add: scenario_world_def)
  with integrity_handshake [where w = scenario_world and p = "''/w/a.pdf''" and now = 7]
  have d: "IncrementError ''/w/a.pdf'' 7 (MarkCorrupt ''/w/a.pdf'' 7 (file_log scenario_world))
     = file_log scenario_world"
    by blast
  note g = integrity_handshake [where le = legacy_plain and k = 0
      and code = 200 and js = "Map.empty" and h = "''0a''" and w = stale_world and p = "''/w/a.pdf''"
      and m = 111 and remote = scenario_remote]
  have pre5: "open_ok (lup legacy_plain) \<and> hash_of (lup legacy_plain) = Some ''0a'' \<and> (0::nat) < 3 \<and>
    (\<forall>j<0. \<not> succeeded (post (lup legacy_plain) j)) \<and>
    post (lup legacy_plain) 0 = Response 200 (JSONObject Map.empty) \<and>
    (200::int) \<le> 200 \<and> (200::int) < 300"
    by (simp add: legacy_plain_facts)
  from g pre5
  have e: "uploadFile legacy_plain scenario_remote ''/w/a.pdf'' 111 stale_world =
     ([OpenFile ''/w/a.pdf'', ReadAll ''/w/a.pdf'', upload_request scenario_remote ''/w/a.pdf''],
      stale_world\<lparr>file_log := UpdateFileStatus ''/w/a.pdf'' StatusUploaded ''0a'' 111 0 7
                                (file_log stale_world),
                  fs := [''/w'' \<mapsto> Directory, ''/w/.done'' \<mapsto> Directory,
                         ''/w/.done/a.pdf'' \<mapsto> Regular 10 111]\<rparr>)"
    unfolding Let_def stale_done_dir legacy_plain_facts by (simp add: legacy_plain_moved)
  from a b c d e show ?thesis by blast
qed

end
